theory Spec2Isabelle
  imports Main "HOL-Library.Sublist"
begin

section \<open>JavaScript values\<close>

text \<open>
  The commands of \<^verbatim>\<open>src/jira-mcp.ts\<close> receive and return plain JavaScript
  objects, and the remote API answers with JSON. Values are modelled by the datatype
  below; an object is an association list of its own properties in insertion order.
  Numbers are modelled as integers (the only number the program handles is the
  \<^verbatim>\<open>maxResults\<close> count).
\<close>

datatype jsval =
    JUndefined
  | JNull
  | JBool bool
  | JNum int
  | JStr string
  | JArr "jsval list"
  | JObj "(string \<times> jsval) list"

text \<open>What a \<^verbatim>\<open>throw\<close> carries; only \<^verbatim>\<open>e.message\<close> is ever read.\<close>

datatype js_error = Error string | TypeError string

fun message :: "js_error \<Rightarrow> string" where
  "message (Error m) = m"
| "message (TypeError m) = m"

text \<open>Truthiness, as \<^verbatim>\<open>!x\<close>, \<^verbatim>\<open>x || y\<close> and \<^verbatim>\<open>if (x)\<close> test it.\<close>

fun truthy :: "jsval \<Rightarrow> bool" where
  "truthy JUndefined = False"
| "truthy JNull = False"
| "truthy (JBool b) = b"
| "truthy (JNum n) = (n \<noteq> 0)"
| "truthy (JStr s) = (s \<noteq> [])"
| "truthy (JArr xs) = True"
| "truthy (JObj kvs) = True"

fun nullish :: "jsval \<Rightarrow> bool" where
  "nullish JUndefined = True"
| "nullish JNull = True"
| "nullish v = False"

text \<open>\<^verbatim>\<open>a || b\<close>\<close>

definition js_or :: "jsval \<Rightarrow> jsval \<Rightarrow> jsval" where
  "js_or a b = (if truthy a then a else b)"

subsection \<open>Strings of numbers\<close>

definition digit :: "nat \<Rightarrow> char" where
  "digit n = ''0123456789'' ! (n mod 10)"

fun show_nat :: "nat \<Rightarrow> string" where
  "show_nat n = (if n < 10 then [digit n] else show_nat (n div 10) @ [digit n])"

declare show_nat.simps [simp del]

definition show_int :: "int \<Rightarrow> string" where
  "show_int i = (if i < 0 then CHR ''-'' # show_nat (nat (- i)) else show_nat (nat i))"

subsection \<open>Joining strings\<close>

text \<open>\<^verbatim>\<open>Array.prototype.join\<close> on a list of strings.\<close>

fun join_str :: "string \<Rightarrow> string list \<Rightarrow> string" where
  "join_str sep [] = []"
| "join_str sep [s] = s"
| "join_str sep (s # t # ts) = s @ sep @ join_str sep (t # ts)"

text \<open>
  \<^verbatim>\<open>ToString\<close>, as a template literal \<^verbatim>\<open>`${x}`\<close> and \<^verbatim>\<open>join\<close> apply it.
  Inside \<^verbatim>\<open>join\<close> an element that is \<^verbatim>\<open>undefined\<close> or \<^verbatim>\<open>null\<close>
  becomes the empty string.
\<close>

fun js_toString :: "jsval \<Rightarrow> string" where
  "js_toString JUndefined = ''undefined''"
| "js_toString JNull = ''null''"
| "js_toString (JBool b) = (if b then ''true'' else ''false'')"
| "js_toString (JNum n) = show_int n"
| "js_toString (JStr s) = s"
| "js_toString (JArr xs) =
     join_str '','' (map (\<lambda>x. if nullish x then [] else js_toString x) xs)"
| "js_toString (JObj kvs) = ''[object Object]''"

definition join_elem :: "jsval \<Rightarrow> string" where
  "join_elem x = (if nullish x then [] else js_toString x)"

text \<open>\<^verbatim>\<open>xs.join(sep)\<close> on an array of values.\<close>

definition js_join :: "string \<Rightarrow> jsval list \<Rightarrow> string" where
  "js_join sep xs = join_str sep (map join_elem xs)"

subsection \<open>Property access\<close>

text \<open>Own property of an object literal; a missing property reads as \<^verbatim>\<open>undefined\<close>.\<close>

definition own_prop :: "(string \<times> jsval) list \<Rightarrow> string \<Rightarrow> jsval" where
  "own_prop kvs k = (case map_of kvs k of None \<Rightarrow> JUndefined | Some v \<Rightarrow> v)"

text \<open>
  \<^verbatim>\<open>v.k\<close> on any value: reading a property of \<^verbatim>\<open>undefined\<close> or \<^verbatim>\<open>null\<close>
  throws a TypeError (message as V8 words it); primitives and arrays have none of the
  property names the program reads, so the read gives \<^verbatim>\<open>undefined\<close>.
\<close>

fun get_prop :: "jsval \<Rightarrow> string \<Rightarrow> js_error + jsval" where
  "get_prop JUndefined k =
     Inl (TypeError (''Cannot read properties of undefined (reading '' @ [CHR 0x27] @ k @ [CHR 0x27] @ '')''))"
| "get_prop JNull k =
     Inl (TypeError (''Cannot read properties of null (reading '' @ [CHR 0x27] @ k @ [CHR 0x27] @ '')''))"
| "get_prop (JObj kvs) k = Inr (own_prop kvs k)"
| "get_prop v k = Inr JUndefined"

text \<open>\<^verbatim>\<open>v?.k\<close>\<close>

definition opt_prop :: "jsval \<Rightarrow> string \<Rightarrow> jsval" where
  "opt_prop v k = (case v of JObj kvs \<Rightarrow> own_prop kvs k | _ \<Rightarrow> JUndefined)"

subsection \<open>Errors as values\<close>

text \<open>
  A computation that may throw returns \<open>js_error + 'a\<close>; \<open>bind_err\<close> sequences two of
  them, and \<open>map_err\<close> is \<^verbatim>\<open>Array.prototype.map\<close> with a callback that may throw.
\<close>

definition bind_err :: "js_error + 'a \<Rightarrow> ('a \<Rightarrow> js_error + 'b) \<Rightarrow> js_error + 'b" where
  "bind_err m f = (case m of Inl e \<Rightarrow> Inl e | Inr x \<Rightarrow> f x)"

fun map_err :: "('a \<Rightarrow> js_error + 'b) \<Rightarrow> 'a list \<Rightarrow> js_error + 'b list" where
  "map_err f [] = Inr []"
| "map_err f (x # xs) =
     (case f x of
        Inl e \<Rightarrow> Inl e
      | Inr y \<Rightarrow> (case map_err f xs of Inl e \<Rightarrow> Inl e | Inr ys \<Rightarrow> Inr (y # ys)))"

subsection \<open>JSON.stringify\<close>

definition hex_digit :: "nat \<Rightarrow> char" where
  "hex_digit n = ''0123456789abcdef'' ! (n mod 16)"

definition json_escape :: "char \<Rightarrow> string" where
  "json_escape c =
     (if c = CHR 0x22 then [CHR 0x5C, CHR 0x22]
      else if c = CHR 0x5C then [CHR 0x5C, CHR 0x5C]
      else if c = CHR 0x08 then [CHR 0x5C, CHR ''b'']
      else if c = CHR 0x0C then [CHR 0x5C, CHR ''f'']
      else if c = CHR 0x0A then [CHR 0x5C, CHR ''n'']
      else if c = CHR 0x0D then [CHR 0x5C, CHR ''r'']
      else if c = CHR 0x09 then [CHR 0x5C, CHR ''t'']
      else if (of_char c :: nat) < 32
        then [CHR 0x5C, CHR ''u'', CHR ''0'', CHR ''0'',
              hex_digit (of_char c div 16), hex_digit (of_char c)]
      else [c])"

definition json_quote :: "string \<Rightarrow> string" where
  "json_quote s = CHR 0x22 # concat (map json_escape s) @ [CHR 0x22]"

text \<open>
  The serialisation of a value, \<open>None\<close> where JavaScript gives \<^verbatim>\<open>undefined\<close>: a property
  whose value is \<^verbatim>\<open>undefined\<close> is left out of an object, and \<^verbatim>\<open>undefined\<close> in an array
  is written \<^verbatim>\<open>null\<close>.
\<close>

fun json_ser :: "jsval \<Rightarrow> string option" where
  "json_ser JUndefined = None"
| "json_ser JNull = Some ''null''"
| "json_ser (JBool b) = Some (if b then ''true'' else ''false'')"
| "json_ser (JNum n) = Some (show_int n)"
| "json_ser (JStr s) = Some (json_quote s)"
| "json_ser (JArr xs) =
     Some (''['' @ join_str '',''
        (map (\<lambda>x. case json_ser x of None \<Rightarrow> ''null'' | Some t \<Rightarrow> t) xs) @ '']'')"
| "json_ser (JObj kvs) =
     Some (''{'' @ join_str '',''
        (concat (map (\<lambda>(k, v). case json_ser v of
                                   None \<Rightarrow> []
                                 | Some t \<Rightarrow> [json_quote k @ '':'' @ t]) kvs)) @ ''}'')"

section \<open>Process state and the remote side\<close>

type_synonym env = "string \<Rightarrow> string option"

text \<open>
  What \<^verbatim>\<open>options.body\<close> can hold: nothing, a string, a \<^verbatim>\<open>Buffer\<close>, a
  \<^verbatim>\<open>Uint8Array\<close>, or any other value (a \<^verbatim>\<open>Blob\<close>, \<^verbatim>\<open>URLSearchParams\<close>, a stream,
  a plain object, ...), named by its class.
\<close>

datatype body_val =
    BodyUndefined
  | BodyNull
  | BodyString string
  | BodyBuffer "nat list"
  | BodyUint8Array "nat list"
  | BodyOther string

text \<open>\<^verbatim>\<open>JSON.stringify(v)\<close> in body position.\<close>

definition JSON_stringify :: "jsval \<Rightarrow> body_val" where
  "JSON_stringify v = (case json_ser v of None \<Rightarrow> BodyUndefined | Some t \<Rightarrow> BodyString t)"

text \<open>The second argument of \<^verbatim>\<open>fetch\<close>, with the URL: one outgoing HTTP request.\<close>

record http_request =
  req_url :: string
  req_method :: "string option"
  req_headers :: "(string \<times> string) list"
  req_body :: "body_val option"

text \<open>The \<^verbatim>\<open>options\<close> argument of \<^verbatim>\<open>jiraRequest\<close>.\<close>

record request_init =
  ri_method :: "string option"
  ri_headers :: "(string \<times> string) list option"
  ri_body :: body_val

definition no_options :: request_init where
  "no_options = \<lparr>ri_method = None, ri_headers = None, ri_body = BodyUndefined\<rparr>"

text \<open>
  The response object as the program reads it: \<^verbatim>\<open>res.ok\<close>, \<^verbatim>\<open>res.status\<close>, and what
  \<^verbatim>\<open>res.text()\<close> and \<^verbatim>\<open>res.json()\<close> settle to.
\<close>

record http_response =
  resp_ok :: bool
  resp_status :: nat
  resp_text :: "js_error + string"
  resp_json :: "js_error + jsval"

datatype fetch_outcome = Rejected js_error | Resolved http_response

text \<open>
  The process: its environment variables and the requests handed to \<^verbatim>\<open>fetch\<close> so far.
  The outside world is a parameter: for the \<open>i\<close>-th call of \<^verbatim>\<open>fetch\<close> and its request it
  gives the outcome and the environment the program finds when the \<^verbatim>\<open>await\<close> resumes.
\<close>

record proc =
  penv :: env
  sent :: "http_request list"

type_synonym remote = "nat \<Rightarrow> http_request \<Rightarrow> fetch_outcome \<times> env"

text \<open>Calling \<^verbatim>\<open>fetch\<close> hands the request over; awaiting it gets the outcome.\<close>

definition send :: "http_request \<Rightarrow> proc \<Rightarrow> nat \<times> proc" where
  "send req s = (length (sent s), s\<lparr>sent := sent s @ [req]\<rparr>)"

definition receive :: "remote \<Rightarrow> nat \<Rightarrow> http_request \<Rightarrow> proc \<Rightarrow> fetch_outcome \<times> proc" where
  "receive R i req s = (case R i req of (out, E) \<Rightarrow> (out, s\<lparr>penv := E\<rparr>))"

definition fetch :: "remote \<Rightarrow> http_request \<Rightarrow> proc \<Rightarrow> fetch_outcome \<times> proc" where
  "fetch R req s = (case send req s of (i, s') \<Rightarrow> receive R i req s')"

section \<open>The API client\<close>

subsection \<open>Configuration\<close>

record jira_config =
  JIRA_BASE_URL :: string
  JIRA_EMAIL :: string
  JIRA_API_TOKEN :: string

text \<open>\<^verbatim>\<open>process.env.K || ''\<close>\<close>

definition env_or_empty :: "env \<Rightarrow> string \<Rightarrow> string" where
  "env_or_empty E k = (case E k of None \<Rightarrow> [] | Some v \<Rightarrow> v)"

definition config_error :: js_error where
  "config_error = Error ''Missing required Jira environment variables. Please set JIRA_BASE_URL, JIRA_EMAIL, and JIRA_API_TOKEN.''"

definition getJiraConfig :: "env \<Rightarrow> js_error + jira_config" where
  "getJiraConfig E =
     (let base = env_or_empty E ''JIRA_BASE_URL'';
          email = env_or_empty E ''JIRA_EMAIL'';
          token = env_or_empty E ''JIRA_API_TOKEN''
      in if base = [] \<or> email = [] \<or> token = [] then Inl config_error
         else Inr \<lparr>JIRA_BASE_URL = base, JIRA_EMAIL = email, JIRA_API_TOKEN = token\<rparr>)"

subsection \<open>Base64\<close>

definition b64_char :: "nat \<Rightarrow> char" where
  "b64_char n = ''ABCDEFGHIJKLMNOPQRSTUVWXYZabcdefghijklmnopqrstuvwxyz0123456789+/'' ! (n mod 64)"

fun base64 :: "nat list \<Rightarrow> string" where
  "base64 [] = []"
| "base64 [a] = [b64_char (a div 4), b64_char ((a mod 4) * 16), CHR ''='', CHR ''='']"
| "base64 [a, b] =
     [b64_char (a div 4), b64_char ((a mod 4) * 16 + b div 16),
      b64_char ((b mod 16) * 4), CHR ''='']"
| "base64 (a # b # c # r) =
     [b64_char (a div 4), b64_char ((a mod 4) * 16 + b div 16),
      b64_char ((b mod 16) * 4 + c div 64), b64_char (c mod 64)] @ base64 r"

text \<open>\<^verbatim>\<open>Buffer.from(s).toString('base64')\<close>; a \<open>string\<close> is its list of bytes.\<close>

definition base64_of_string :: "string \<Rightarrow> string" where
  "base64_of_string s = base64 (map of_char s)"

subsection \<open>jiraRequest\<close>

text \<open>Setting one property of an object, and \<^verbatim>\<open>Object.assign({}, a, b)\<close>.\<close>

fun set_key :: "'k \<Rightarrow> 'v \<Rightarrow> ('k \<times> 'v) list \<Rightarrow> ('k \<times> 'v) list" where
  "set_key k v [] = [(k, v)]"
| "set_key k v ((k', v') # r) = (if k = k' then (k, v) # r else (k', v') # set_key k v r)"

definition object_assign :: "('k \<times> 'v) list \<Rightarrow> ('k \<times> 'v) list \<Rightarrow> ('k \<times> 'v) list" where
  "object_assign a b = foldl (\<lambda>acc (k, v). set_key k v acc) a b"

text \<open>
  The guard on \<^verbatim>\<open>options.body\<close>: only a string, a \<^verbatim>\<open>Buffer\<close> or a \<^verbatim>\<open>Uint8Array\<close>
  becomes \<^verbatim>\<open>safeBody\<close> (\<^verbatim>\<open>Buffer\<close> and \<^verbatim>\<open>Uint8Array\<close> are defined in Node, where the
  function itself calls \<^verbatim>\<open>Buffer.from\<close>).
\<close>

fun safeBody :: "body_val \<Rightarrow> body_val option" where
  "safeBody (BodyString t) = Some (BodyString t)"
| "safeBody (BodyBuffer b) = Some (BodyBuffer b)"
| "safeBody (BodyUint8Array b) = Some (BodyUint8Array b)"
| "safeBody BodyUndefined = None"
| "safeBody BodyNull = None"
| "safeBody (BodyOther c) = None"

text \<open>Lines 26 to 50: the request built from a configuration that was read.\<close>

definition build_request :: "jira_config \<Rightarrow> string \<Rightarrow> request_init \<Rightarrow> http_request" where
  "build_request cfg path options =
     (let auth = base64_of_string (JIRA_EMAIL cfg @ '':'' @ JIRA_API_TOKEN cfg);
          baseHeaders = [(''Authorization'', ''Basic '' @ auth), (''Accept'', ''application/json'')];
          mergedHeaders = object_assign baseHeaders
             (case ri_headers options of None \<Rightarrow> [] | Some h \<Rightarrow> h)
      in \<lparr>req_url = JIRA_BASE_URL cfg @ path,
          req_method = (case ri_method options of
                          None \<Rightarrow> None
                        | Some m \<Rightarrow> if m = [] then None else Some m),
          req_headers = mergedHeaders,
          req_body = safeBody (ri_body options)\<rparr>)"

text \<open>Lines 25 to 50: everything up to the call of \<^verbatim>\<open>fetch\<close>.\<close>

definition jiraRequest_prepare :: "env \<Rightarrow> string \<Rightarrow> request_init \<Rightarrow> js_error + http_request" where
  "jiraRequest_prepare E path options =
     (case getJiraConfig E of
        Inl e \<Rightarrow> Inl e
      | Inr cfg \<Rightarrow> Inr (build_request cfg path options))"

text \<open>Lines 51 to 56: what happens with the outcome of \<^verbatim>\<open>fetch\<close>.\<close>

definition jiraRequest_finish :: "fetch_outcome \<Rightarrow> js_error + jsval" where
  "jiraRequest_finish out =
     (case out of
        Rejected e \<Rightarrow> Inl e
      | Resolved res \<Rightarrow>
          if \<not> resp_ok res then
            (case resp_text res of
               Inl e \<Rightarrow> Inl e
             | Inr err \<Rightarrow> Inl (Error (''Jira API error: '' @ show_nat (resp_status res) @ '' '' @ err)))
          else resp_json res)"

definition jiraRequest ::
  "remote \<Rightarrow> string \<Rightarrow> request_init \<Rightarrow> proc \<Rightarrow> (js_error + jsval) \<times> proc" where
  "jiraRequest R path options s =
     (case jiraRequest_prepare (penv s) path options of
        Inl e \<Rightarrow> (Inl e, s)
      | Inr req \<Rightarrow> (case fetch R req s of (out, s') \<Rightarrow> (jiraRequest_finish out, s')))"

subsection \<open>jiraApi\<close>

definition json_headers :: "(string \<times> string) list" where
  "json_headers = [(''Content-Type'', ''application/json'')]"

definition jiraApi_getIssue :: "remote \<Rightarrow> jsval \<Rightarrow> proc \<Rightarrow> (js_error + jsval) \<times> proc" where
  "jiraApi_getIssue R issueKey s =
     jiraRequest R (''/rest/api/3/issue/'' @ js_toString issueKey) no_options s"

text \<open>The field set that \<^verbatim>\<open>jiraApi.createIssue\<close> builds from its input object.\<close>

definition createIssue_fields :: "(string \<times> jsval) list \<Rightarrow> (string \<times> jsval) list" where
  "createIssue_fields input =
     [(''project'', JObj [(''key'', own_prop input ''projectKey'')]),
      (''summary'', own_prop input ''summary''),
      (''issuetype'', JObj [(''name'', own_prop input ''issueType'')])]
     @ (if truthy (own_prop input ''description'')
        then [(''description'', own_prop input ''description'')] else [])
     @ (if truthy (own_prop input ''assignee'')
        then [(''assignee'', JObj [(''name'', own_prop input ''assignee'')])] else [])
     @ (if truthy (own_prop input ''priority'')
        then [(''priority'', JObj [(''name'', own_prop input ''priority'')])] else [])
     @ (if truthy (own_prop input ''epicLink'')
        then [(''customfield_10008'', own_prop input ''epicLink'')] else [])
     @ (if truthy (own_prop input ''parent'')
        then [(''parent'', JObj [(''key'', own_prop input ''parent'')])] else [])"

definition createIssue_options :: "(string \<times> jsval) list \<Rightarrow> request_init" where
  "createIssue_options input =
     \<lparr>ri_method = Some ''POST'', ri_headers = Some json_headers,
      ri_body = JSON_stringify (JObj [(''fields'', JObj (createIssue_fields input))])\<rparr>"

definition jiraApi_createIssue ::
  "remote \<Rightarrow> (string \<times> jsval) list \<Rightarrow> proc \<Rightarrow> (js_error + jsval) \<times> proc" where
  "jiraApi_createIssue R input s =
     jiraRequest R ''/rest/api/3/issue'' (createIssue_options input) s"

definition addWorklog_body :: "jsval \<Rightarrow> jsval \<Rightarrow> (string \<times> jsval) list" where
  "addWorklog_body timeSpent comment =
     [(''timeSpent'', timeSpent)] @ (if truthy comment then [(''comment'', comment)] else [])"

definition jiraApi_addWorklog ::
  "remote \<Rightarrow> jsval \<Rightarrow> jsval \<Rightarrow> jsval \<Rightarrow> proc \<Rightarrow> (js_error + jsval) \<times> proc" where
  "jiraApi_addWorklog R issueKey timeSpent comment s =
     jiraRequest R (''/rest/api/3/issue/'' @ js_toString issueKey @ ''/worklog'')
       \<lparr>ri_method = Some ''POST'', ri_headers = Some json_headers,
        ri_body = JSON_stringify (JObj (addWorklog_body timeSpent comment))\<rparr> s"

definition jiraApi_updateIssue ::
  "remote \<Rightarrow> jsval \<Rightarrow> jsval \<Rightarrow> proc \<Rightarrow> (js_error + jsval) \<times> proc" where
  "jiraApi_updateIssue R issueIdOrKey flds s =
     jiraRequest R (''/rest/api/3/issue/'' @ js_toString issueIdOrKey)
       \<lparr>ri_method = Some ''PUT'', ri_headers = Some json_headers,
        ri_body = JSON_stringify (JObj [(''fields'', flds)])\<rparr> s"

definition jiraApi_deleteIssue :: "remote \<Rightarrow> jsval \<Rightarrow> proc \<Rightarrow> (js_error + jsval) \<times> proc" where
  "jiraApi_deleteIssue R issueIdOrKey s =
     jiraRequest R (''/rest/api/3/issue/'' @ js_toString issueIdOrKey)
       \<lparr>ri_method = Some ''DELETE'', ri_headers = None, ri_body = BodyUndefined\<rparr> s"

definition listIssues_body :: "jsval \<Rightarrow> jsval \<Rightarrow> (string \<times> jsval) list" where
  "listIssues_body jql maxResults =
     (if truthy jql then [(''jql'', jql)] else [])
     @ (if truthy maxResults then [(''maxResults'', maxResults)] else [])"

definition jiraApi_listIssues ::
  "remote \<Rightarrow> jsval \<Rightarrow> jsval \<Rightarrow> proc \<Rightarrow> (js_error + jsval) \<times> proc" where
  "jiraApi_listIssues R jql maxResults s =
     jiraRequest R ''/rest/api/3/search''
       \<lparr>ri_method = Some ''POST'', ri_headers = Some json_headers,
        ri_body = JSON_stringify (JObj (listIssues_body jql maxResults))\<rparr> s"

section \<open>Commands\<close>

text \<open>
  Every \<^verbatim>\<open>run\<close> takes the input object and the process state and returns what its
  promise settles to (\<open>Inl\<close> when it rejects, \<open>Inr\<close> the returned value) with the state
  afterwards.
\<close>

type_synonym command = "(string \<times> jsval) list \<Rightarrow> proc \<Rightarrow> (js_error + jsval) \<times> proc"

text \<open>\<^verbatim>\<open>catch (e) { return { error: true, message: e.message }; }\<close>\<close>

definition catch_error :: "js_error \<Rightarrow> jsval" where
  "catch_error e = JObj [(''error'', JBool True), (''message'', JStr (message e))]"

definition caught :: "js_error + jsval \<Rightarrow> jsval" where
  "caught r = (case r of Inl e \<Rightarrow> catch_error e | Inr v \<Rightarrow> v)"

subsection \<open>getIssueDetails\<close>

text \<open>\<^verbatim>\<open>c.content?.map((t) => t.text).join(' ')\<close> for one block \<open>c\<close>.\<close>

definition flatten_block :: "jsval \<Rightarrow> js_error + jsval" where
  "flatten_block c =
     bind_err (get_prop c ''content'') (\<lambda>cc.
       if nullish cc then Inr JUndefined
       else (case cc of
               JArr ts \<Rightarrow>
                 bind_err (map_err (\<lambda>t. get_prop t ''text'') ts) (\<lambda>texts.
                   Inr (JStr (js_join '' '' texts)))
             | _ \<Rightarrow> Inl (TypeError ''c.content.map is not a function'')))"

text \<open>The \<^verbatim>\<open>description\<close> property of the result.\<close>

definition flatten_description :: "jsval \<Rightarrow> js_error + jsval" where
  "flatten_description fs =
     bind_err (get_prop fs ''description'') (\<lambda>d.
       let content = opt_prop d ''content'' in
       if truthy content then
         (case content of
            JArr blocks \<Rightarrow>
              bind_err (map_err flatten_block blocks) (\<lambda>parts.
                Inr (JStr (js_join [CHR 0x0A] parts)))
          | _ \<Rightarrow> Inl (TypeError ''fields.description.content.map is not a function''))
       else Inr JNull)"

definition subtask_summary :: "jsval \<Rightarrow> js_error + jsval" where
  "subtask_summary st =
     bind_err (get_prop st ''key'') (\<lambda>k.
     bind_err (get_prop st ''fields'') (\<lambda>f.
       Inr (JObj [(''key'', k), (''summary'', opt_prop f ''summary'')])))"

definition subtask_list :: "jsval \<Rightarrow> js_error + jsval" where
  "subtask_list fs =
     bind_err (get_prop fs ''subtasks'') (\<lambda>sts.
       case js_or sts (JArr []) of
         JArr xs \<Rightarrow> bind_err (map_err subtask_summary xs) (\<lambda>ys. Inr (JArr ys))
       | _ \<Rightarrow> Inl (TypeError ''(fields.subtasks || []).map is not a function''))"

text \<open>The body of the \<^verbatim>\<open>try\<close> block after the issue has been fetched.\<close>

definition issue_details :: "jsval \<Rightarrow> js_error + jsval" where
  "issue_details data =
     bind_err (get_prop data ''fields'') (\<lambda>f.
     let fs = js_or f (JObj []) in
     bind_err (get_prop data ''key'') (\<lambda>k.
     bind_err (get_prop fs ''summary'') (\<lambda>summary.
     bind_err (get_prop fs ''status'') (\<lambda>status.
     bind_err (get_prop fs ''assignee'') (\<lambda>assignee.
     bind_err (flatten_description fs) (\<lambda>description.
     bind_err (get_prop fs ''customfield_10008'') (\<lambda>epic.
     bind_err (subtask_list fs) (\<lambda>subtasks.
       Inr (JObj [(''key'', k),
                  (''summary'', summary),
                  (''status'', opt_prop status ''name''),
                  (''assignee'', js_or (opt_prop assignee ''displayName'') JNull),
                  (''description'', description),
                  (''epicLink'', js_or epic JNull),
                  (''subtasks'', subtasks)])))))))))"

definition getIssueDetails_run :: "remote \<Rightarrow> command" where
  "getIssueDetails_run R input s =
     (case jiraApi_getIssue R (own_prop input ''issueIdOrKey'') s of
        (r, s') \<Rightarrow> (Inr (caught (bind_err r issue_details)), s'))"

subsection \<open>createIssue\<close>

definition createIssue_run :: "remote \<Rightarrow> command" where
  "createIssue_run R input s =
     (if \<not> truthy (own_prop input ''projectKey'') \<or> \<not> truthy (own_prop input ''summary'')
         \<or> \<not> truthy (own_prop input ''issueType'')
      then (Inr (JObj [(''error'', JBool True),
                       (''message'', JStr ''Missing required fields: projectKey, summary, or issueType'')]), s)
      else
        (case jiraApi_createIssue R input s of
           (r, s') \<Rightarrow>
             (Inr (caught
                (bind_err r (\<lambda>issue.
                 bind_err (get_prop issue ''key'') (\<lambda>k.
                 bind_err (getJiraConfig (penv s')) (\<lambda>cfg.
                   Inr (JObj [(''key'', k),
                              (''url'', JStr (JIRA_BASE_URL cfg @ ''/browse/'' @ js_toString k))])))))), s')))"

subsection \<open>transitionIssue\<close>


subsection \<open>batchCreateIssues\<close>

text \<open>
  \<^verbatim>\<open>Promise.all(input.issues.map(async (issue) => ...))\<close>: \<^verbatim>\<open>map\<close> runs every callback
  up to its first suspension, the \<^verbatim>\<open>await\<close> of \<^verbatim>\<open>fetch\<close> inside \<^verbatim>\<open>jiraRequest\<close>, so
  all requests are handed over in input order under the environment of that moment;
  each callback then resumes with its own outcome. What a callback is left with after
  the first phase:
\<close>

datatype pending = Threw js_error | Awaiting nat http_request

text \<open>The object literal passed to \<^verbatim>\<open>jiraApi.createIssue\<close> for one item.\<close>

definition batch_item_input :: "jsval \<Rightarrow> jsval \<Rightarrow> js_error + (string \<times> jsval) list" where
  "batch_item_input projectKey issue =
     bind_err (get_prop issue ''summary'') (\<lambda>summary.
     bind_err (get_prop issue ''description'') (\<lambda>description.
     bind_err (get_prop issue ''issueType'') (\<lambda>issueType.
     bind_err (get_prop issue ''assignee'') (\<lambda>assignee.
       Inr [(''projectKey'', projectKey), (''summary'', summary), (''description'', description),
            (''issueType'', issueType), (''assignee'', assignee)]))))"

text \<open>The callback up to the call of \<^verbatim>\<open>fetch\<close>: the request of one item, unless something throws.\<close>

definition batch_request :: "env \<Rightarrow> jsval \<Rightarrow> jsval \<Rightarrow> js_error + http_request" where
  "batch_request E projectKey issue =
     bind_err (batch_item_input projectKey issue) (\<lambda>inp.
       jiraRequest_prepare E ''/rest/api/3/issue'' (createIssue_options inp))"

definition batch_start :: "jsval \<Rightarrow> jsval \<Rightarrow> proc \<Rightarrow> pending \<times> proc" where
  "batch_start projectKey issue s =
     (case batch_request (penv s) projectKey issue of
        Inl e \<Rightarrow> (Threw e, s)
      | Inr req \<Rightarrow> (case send req s of (i, s') \<Rightarrow> (Awaiting i req, s')))"

text \<open>The \<^verbatim>\<open>catch\<close> block of the callback; reading \<^verbatim>\<open>issue.summary\<close> there can throw again.\<close>

definition batch_catch :: "jsval \<Rightarrow> js_error \<Rightarrow> js_error + jsval" where
  "batch_catch issue e =
     bind_err (get_prop issue ''summary'') (\<lambda>summary.
       Inr (JObj [(''error'', JBool True), (''message'', JStr (message e)), (''summary'', summary)]))"

fun batch_finish :: "remote \<Rightarrow> jsval \<Rightarrow> pending \<Rightarrow> proc \<Rightarrow> (js_error + jsval) \<times> proc" where
  "batch_finish R issue (Threw e) s = (batch_catch issue e, s)"
| "batch_finish R issue (Awaiting i req) s =
     (case receive R i req s of
        (out, s') \<Rightarrow>
          (case bind_err (jiraRequest_finish out) (\<lambda>created.
                bind_err (get_prop created ''key'') (\<lambda>k.
                bind_err (getJiraConfig (penv s')) (\<lambda>cfg.
                  Inr (JObj [(''key'', k),
                             (''url'', JStr (JIRA_BASE_URL cfg @ ''/browse/'' @ js_toString k)),
                             (''success'', JBool True)])))) of
             Inl e \<Rightarrow> (batch_catch issue e, s')
           | Inr v \<Rightarrow> (Inr v, s')))"

fun start_all :: "jsval \<Rightarrow> jsval list \<Rightarrow> proc \<Rightarrow> pending list \<times> proc" where
  "start_all projectKey [] s = ([], s)"
| "start_all projectKey (issue # issues) s =
     (case batch_start projectKey issue s of
        (p, s') \<Rightarrow> (case start_all projectKey issues s' of (ps, s'') \<Rightarrow> (p # ps, s'')))"

fun finish_all :: "remote \<Rightarrow> (jsval \<times> pending) list \<Rightarrow> proc \<Rightarrow> (js_error + jsval) list \<times> proc" where
  "finish_all R [] s = ([], s)"
| "finish_all R ((issue, p) # rest) s =
     (case batch_finish R issue p s of
        (r, s') \<Rightarrow> (case finish_all R rest s' of (rs, s'') \<Rightarrow> (r # rs, s'')))"

text \<open>\<^verbatim>\<open>Promise.all\<close>: the list of the values, or the first rejection.\<close>

definition promise_all :: "(js_error + 'a) list \<Rightarrow> js_error + 'a list" where
  "promise_all rs = map_err (\<lambda>r. r) rs"

fun is_array :: "jsval \<Rightarrow> bool" where
  "is_array (JArr xs) = True"
| "is_array v = False"

fun elems :: "jsval \<Rightarrow> jsval list" where
  "elems (JArr xs) = xs"
| "elems v = []"

definition batchCreateIssues_run :: "remote \<Rightarrow> command" where
  "batchCreateIssues_run R input s =
     (if \<not> truthy (own_prop input ''projectKey'') \<or> \<not> is_array (own_prop input ''issues'')
         \<or> length (elems (own_prop input ''issues'')) = 0
      then (Inr (JObj [(''error'', JBool True),
                       (''message'', JStr ''Missing projectKey or issues array is empty'')]), s)
      else
        (case start_all (own_prop input ''projectKey'') (elems (own_prop input ''issues'')) s of
           (ps, s1) \<Rightarrow>
             (case finish_all R (zip (elems (own_prop input ''issues'')) ps) s1 of
                (rs, s2) \<Rightarrow>
                  (case promise_all rs of
                     Inl e \<Rightarrow> (Inl e, s2)
                   | Inr results \<Rightarrow> (Inr (JArr results), s2)))))"

subsection \<open>logWork\<close>

definition logWork_run :: "remote \<Rightarrow> command" where
  "logWork_run R input s =
     (if \<not> truthy (own_prop input ''issueKey'') \<or> \<not> truthy (own_prop input ''timeSpent'')
      then (Inr (JObj [(''error'', JBool True),
                       (''message'', JStr ''Missing required fields: issueKey or timeSpent'')]), s)
      else
        (case jiraApi_addWorklog R (own_prop input ''issueKey'') (own_prop input ''timeSpent'')
                (own_prop input ''comment'') s of
           (r, s') \<Rightarrow>
             (Inr (caught
                (bind_err r (\<lambda>_.
                   Inr (JObj [(''success'', JBool True),
                              (''message'', JStr (''Worklog added to '' @ js_toString (own_prop input ''issueKey'')))])))),
              s')))"

subsection \<open>The task commands\<close>

definition createTask_run :: "remote \<Rightarrow> command" where
  "createTask_run R input s =
     createIssue_run R
       [(''projectKey'', own_prop input ''projectKey''),
        (''summary'', own_prop input ''summary''),
        (''description'', own_prop input ''description''),
        (''issueType'', own_prop input ''issueType'')] s"

definition getTask_run :: "remote \<Rightarrow> command" where
  "getTask_run R input s =
     getIssueDetails_run R [(''issueIdOrKey'', own_prop input ''issueIdOrKey'')] s"

definition updateTask_run :: "remote \<Rightarrow> command" where
  "updateTask_run R input s =
     (case jiraApi_updateIssue R (own_prop input ''issueIdOrKey'') (own_prop input ''fields'') s of
        (r, s') \<Rightarrow>
          (Inr (caught
             (bind_err r (\<lambda>_.
                Inr (JObj [(''success'', JBool True), (''message'', JStr ''Task updated''),
                           (''input'', JObj input)])))), s'))"

definition deleteTask_run :: "remote \<Rightarrow> command" where
  "deleteTask_run R input s =
     (case jiraApi_deleteIssue R (own_prop input ''issueIdOrKey'') s of
        (r, s') \<Rightarrow>
          (Inr (caught
             (bind_err r (\<lambda>_.
                Inr (JObj [(''success'', JBool True), (''message'', JStr ''Task deleted''),
                           (''input'', JObj input)])))), s'))"

definition listTasks_run :: "remote \<Rightarrow> command" where
  "listTasks_run R input s =
     (case jiraApi_listIssues R (own_prop input ''jql'') (own_prop input ''maxResults'') s of
        (r, s') \<Rightarrow>
          (Inr (caught
             (bind_err r (\<lambda>result.
              bind_err (get_prop result ''issues'') (\<lambda>issues.
                Inr (JObj [(''success'', JBool True), (''issues'', issues)]))))), s'))"

section \<open>Vocabulary of the properties\<close>

text \<open>An environment variable that is not set, or set to the empty string.\<close>

definition unset :: "env \<Rightarrow> string \<Rightarrow> bool" where
  "unset E k = (E k = None \<or> E k = Some [])"

text \<open>A property that is the empty string or is not there at all.\<close>

definition empty_or_absent :: "jsval \<Rightarrow> bool" where
  "empty_or_absent v = (v = JStr [] \<or> v = JUndefined)"

text \<open>A text node carrying the text \<open>t\<close>; a block with the texts \<open>ts\<close>; a description document with the blocks \<open>bs\<close>.\<close>

definition text_node_of :: "jsval \<Rightarrow> string \<Rightarrow> bool" where
  "text_node_of v t = (get_prop v ''text'' = Inr (JStr t))"

definition block_of :: "jsval \<Rightarrow> string list \<Rightarrow> bool" where
  "block_of v ts =
     (case get_prop v ''content'' of
        Inr (JArr nodes) \<Rightarrow> list_all2 text_node_of nodes ts
      | _ \<Rightarrow> False)"

definition document_of :: "jsval \<Rightarrow> string list list \<Rightarrow> bool" where
  "document_of d bs =
     (case opt_prop d ''content'' of
        JArr blocks \<Rightarrow> list_all2 block_of blocks bs
      | _ \<Rightarrow> False)"

text \<open>A \<^verbatim>\<open>subtasks\<close> field that is absent, or a list without \<^verbatim>\<open>null\<close> entries.\<close>

definition wf_subtasks :: "jsval \<Rightarrow> bool" where
  "wf_subtasks v = (case v of JArr xs \<Rightarrow> list_all (\<lambda>x. \<not> nullish x) xs | _ \<Rightarrow> \<not> truthy v)"

text \<open>What \<^verbatim>\<open>await jiraApi.createIssue(...)\<close> settles to for the item at position \<open>i\<close> of a batch
  whose items all reach \<^verbatim>\<open>fetch\<close> or all fail before it, and the environment at that moment:
  the request of item \<open>i\<close> is the \<open>i\<close>-th one handed over by this run.\<close>

definition create_call :: "remote \<Rightarrow> proc \<Rightarrow> jsval \<Rightarrow> jsval list \<Rightarrow> nat \<Rightarrow> (js_error + jsval) \<times> env" where
  "create_call R s projectKey issues i =
     (case batch_request (penv s) projectKey (issues ! i) of
        Inl e \<Rightarrow> (Inl e, penv s)
      | Inr req \<Rightarrow> (case R (length (sent s) + i) req of (out, E) \<Rightarrow> (jiraRequest_finish out, E)))"

section \<open>Sample environments, inputs and remote sides\<close>

text \<open>Concrete values on which the properties below are exercised.\<close>

definition example_env :: env where
  "example_env = [''JIRA_BASE_URL'' \<mapsto> ''https://example.atlassian.net'',
                  ''JIRA_EMAIL'' \<mapsto> ''dev@example.com'',
                  ''JIRA_API_TOKEN'' \<mapsto> ''token'']"

definition no_token_env :: env where
  "no_token_env = [''JIRA_BASE_URL'' \<mapsto> ''https://example.atlassian.net'',
                   ''JIRA_EMAIL'' \<mapsto> ''dev@example.com'']"

definition ok_response :: "jsval \<Rightarrow> http_response" where
  "ok_response v = \<lparr>resp_ok = True, resp_status = 200, resp_text = Inr [], resp_json = Inr v\<rparr>"

definition error_response :: "nat \<Rightarrow> string \<Rightarrow> http_response" where
  "error_response code txt =
     \<lparr>resp_ok = False, resp_status = code, resp_text = Inr txt,
      resp_json = Inl (Error ''Unexpected token'')\<rparr>"

definition created_remote :: remote where
  "created_remote i req = (Resolved (ok_response (JObj [(''key'', JStr ''PROJ-1'')])), example_env)"


definition flaky_remote :: remote where
  "flaky_remote i req =
     (if i = 1 then Resolved (error_response 400 ''bad request'')
      else Resolved (ok_response (JObj [(''key'', JStr (if i = 0 then ''PROJ-1'' else ''PROJ-3''))])),
      example_env)"

definition start :: proc where
  "start = \<lparr>penv = example_env, sent = []\<rparr>"

definition start_no_token :: proc where
  "start_no_token = \<lparr>penv = no_token_env, sent = []\<rparr>"

definition worklog_input :: "(string \<times> jsval) list" where
  "worklog_input = [(''issueKey'', JStr ''PROJ-123''), (''timeSpent'', JStr ''2h'')]"

definition worklog_input_comment :: "(string \<times> jsval) list" where
  "worklog_input_comment =
     [(''issueKey'', JStr ''PROJ-123''), (''timeSpent'', JStr ''30m''), (''comment'', JStr ''bugfix'')]"


definition issue_json :: jsval where
  "issue_json =
     JObj [(''key'', JStr ''PROJ-123''),
           (''fields'', JObj
              [(''summary'', JStr ''Fix login''),
               (''description'', JObj
                  [(''type'', JStr ''doc''),
                   (''content'', JArr
                      [JObj [(''type'', JStr ''paragraph''),
                             (''content'', JArr [JObj [(''type'', JStr ''text''), (''text'', JStr ''a'')],
                                                 JObj [(''type'', JStr ''text''), (''text'', JStr ''b'')]])],
                       JObj [(''type'', JStr ''paragraph''),
                             (''content'', JArr [JObj [(''type'', JStr ''text''), (''text'', JStr ''c'')]])]])]),
               (''subtasks'', JArr [])])]"

definition issue_remote :: remote where
  "issue_remote i req = (Resolved (ok_response issue_json), example_env)"

definition batch_issues :: "jsval list" where
  "batch_issues =
     [JObj [(''summary'', JStr ''Task 1''), (''issueType'', JStr ''Task'')],
      JObj [(''summary'', JStr ''Task 2''), (''description'', JStr ''Desc 2''),
            (''issueType'', JStr ''Bug''), (''assignee'', JStr ''user2'')],
      JObj [(''summary'', JStr ''Task 3''), (''issueType'', JStr ''Task'')]]"

definition batch_input :: "(string \<times> jsval) list" where
  "batch_input = [(''projectKey'', JStr ''PROJ''), (''issues'', JArr batch_issues)]"

section \<open>Properties\<close>

subsection \<open>transitionIssue\<close>



subsection \<open>Configuration and the request layer\<close>

lemma env_or_empty_unset: "(env_or_empty E k = []) = unset E k"
  by (auto simp: env_or_empty_def unset_def split: option.splits)

lemma getJiraConfig_unset:
  "unset E ''JIRA_BASE_URL'' \<or> unset E ''JIRA_EMAIL'' \<or> unset E ''JIRA_API_TOKEN''
   \<Longrightarrow> getJiraConfig E = Inl config_error"
  by (simp add: getJiraConfig_def Let_def env_or_empty_unset)

lemma jiraRequest_no_config:
  "getJiraConfig (penv s) = Inl e \<Longrightarrow> jiraRequest R path options s = (Inl e, s)"
  by (simp add: jiraRequest_def jiraRequest_prepare_def)

lemma jiraRequest_with_config:
  "getJiraConfig (penv s) = Inr cfg \<Longrightarrow>
   jiraRequest R path options s =
     (jiraRequest_finish (fst (R (length (sent s)) (build_request cfg path options))),
      \<lparr>penv = snd (R (length (sent s)) (build_request cfg path options)),
       sent = sent s @ [build_request cfg path options]\<rparr>)"
  by (simp add: jiraRequest_def jiraRequest_prepare_def fetch_def send_def receive_def
      split: prod.splits)

text \<open>
  C6: when one of \<^verbatim>\<open>JIRA_BASE_URL\<close>, \<^verbatim>\<open>JIRA_EMAIL\<close>, \<^verbatim>\<open>JIRA_API_TOKEN\<close> is not set (or is
  empty), each of the six operations of \<^verbatim>\<open>jiraApi\<close> fails with the configuration error
  and leaves the process state as it was: no request has been handed to \<^verbatim>\<open>fetch\<close>.
\<close>

theorem api_client_config_error:
  assumes "unset (penv s) ''JIRA_BASE_URL'' \<or> unset (penv s) ''JIRA_EMAIL''
           \<or> unset (penv s) ''JIRA_API_TOKEN''"
  shows "jiraApi_getIssue R issueKey s = (Inl config_error, s)
       \<and> jiraApi_createIssue R input s = (Inl config_error, s)
       \<and> jiraApi_addWorklog R issueKey timeSpent comment s = (Inl config_error, s)
       \<and> jiraApi_updateIssue R issueKey flds s = (Inl config_error, s)
       \<and> jiraApi_deleteIssue R issueKey s = (Inl config_error, s)
       \<and> jiraApi_listIssues R jql maxResults s = (Inl config_error, s)"
proof -
  from assms have "getJiraConfig (penv s) = Inl config_error"
    by (rule getJiraConfig_unset)
  then have "\<And>path options. jiraRequest R path options s = (Inl config_error, s)"
    by (rule jiraRequest_no_config)
  then show ?thesis
    by (simp add: jiraApi_getIssue_def jiraApi_createIssue_def jiraApi_addWorklog_def
        jiraApi_updateIssue_def jiraApi_deleteIssue_def jiraApi_listIssues_def)
qed

theorem api_client_config_error_witness:
  "unset (penv start_no_token) ''JIRA_API_TOKEN''
   \<and> jiraApi_getIssue created_remote (JStr ''PROJ-123'') start_no_token = (Inl config_error, start_no_token)
   \<and> jiraApi_createIssue created_remote [(''projectKey'', JStr ''PROJ'')] start_no_token = (Inl config_error, start_no_token)
   \<and> sent start_no_token = []"
proof -
  have h: "unset (penv start_no_token) ''JIRA_API_TOKEN''"
    by (simp add: unset_def start_no_token_def no_token_env_def)
  then have "unset (penv start_no_token) ''JIRA_BASE_URL'' \<or> unset (penv start_no_token) ''JIRA_EMAIL''
           \<or> unset (penv start_no_token) ''JIRA_API_TOKEN''"
    by simp
  from api_client_config_error [OF this, of created_remote "JStr ''PROJ-123''" "[(''projectKey'', JStr ''PROJ'')]"]
  show ?thesis using h
    by (simp add: start_no_token_def)
qed

lemma example_config:
  "getJiraConfig example_env =
     Inr \<lparr>JIRA_BASE_URL = ''https://example.atlassian.net'', JIRA_EMAIL = ''dev@example.com'',
          JIRA_API_TOKEN = ''token''\<rparr>"
  by (simp add: getJiraConfig_def env_or_empty_def example_env_def)

text \<open>
  C9: with the configuration present, \<^verbatim>\<open>jiraRequest\<close> hands exactly one request to
  \<^verbatim>\<open>fetch\<close> whatever \<^verbatim>\<open>options.body\<close> holds, and its result is that of the remote
  outcome. The request carries \<^verbatim>\<open>options.body\<close> when that is a string, a
  \<^verbatim>\<open>Buffer\<close> or a \<^verbatim>\<open>Uint8Array\<close>, and carries no body in every other case.
\<close>

theorem jiraRequest_body_guard:
  assumes "getJiraConfig (penv s) = Inr cfg"
  shows "\<exists>req. jiraRequest R path options s =
                  (jiraRequest_finish (fst (R (length (sent s)) req)),
                   \<lparr>penv = snd (R (length (sent s)) req), sent = sent s @ [req]\<rparr>)
             \<and> req_url req = JIRA_BASE_URL cfg @ path
             \<and> req_body req =
                 (case ri_body options of
                    BodyString t \<Rightarrow> Some (BodyString t)
                  | BodyBuffer b \<Rightarrow> Some (BodyBuffer b)
                  | BodyUint8Array b \<Rightarrow> Some (BodyUint8Array b)
                  | BodyUndefined \<Rightarrow> None
                  | BodyNull \<Rightarrow> None
                  | BodyOther c \<Rightarrow> None)"
proof -
  let ?req = "build_request cfg path options"
  have "req_body ?req = safeBody (ri_body options)"
    by (simp add: build_request_def)
  then have body: "req_body ?req =
      (case ri_body options of
         BodyString t \<Rightarrow> Some (BodyString t)
       | BodyBuffer b \<Rightarrow> Some (BodyBuffer b)
       | BodyUint8Array b \<Rightarrow> Some (BodyUint8Array b)
       | BodyUndefined \<Rightarrow> None
       | BodyNull \<Rightarrow> None
       | BodyOther c \<Rightarrow> None)"
    by (cases "ri_body options") simp_all
  have url: "req_url ?req = JIRA_BASE_URL cfg @ path"
    by (simp add: build_request_def)
  from jiraRequest_with_config [OF assms, of R path options] body url
  show ?thesis by blast
qed

theorem jiraRequest_body_guard_witness:
  "getJiraConfig (penv start) = Inr \<lparr>JIRA_BASE_URL = ''https://example.atlassian.net'',
       JIRA_EMAIL = ''dev@example.com'', JIRA_API_TOKEN = ''token''\<rparr>
   \<and> (\<exists>req. jiraRequest created_remote ''/rest/api/3/issue''
                \<lparr>ri_method = Some ''POST'', ri_headers = None, ri_body = BodyOther ''URLSearchParams''\<rparr> start =
              (Inr (JObj [(''key'', JStr ''PROJ-1'')]), \<lparr>penv = example_env, sent = [req]\<rparr>)
            \<and> req_url req = ''https://example.atlassian.net/rest/api/3/issue''
            \<and> req_body req = None)
   \<and> (\<exists>req. jiraRequest created_remote ''/rest/api/3/issue''
                \<lparr>ri_method = Some ''POST'', ri_headers = None, ri_body = BodyString ''{}''\<rparr> start =
              (Inr (JObj [(''key'', JStr ''PROJ-1'')]), \<lparr>penv = example_env, sent = [req]\<rparr>)
            \<and> req_body req = Some (BodyString ''{}''))"
proof -
  have cfg: "getJiraConfig (penv start) = Inr \<lparr>JIRA_BASE_URL = ''https://example.atlassian.net'',
       JIRA_EMAIL = ''dev@example.com'', JIRA_API_TOKEN = ''token''\<rparr>"
    by (simp add: start_def example_config)
  have fin: "\<And>i req. jiraRequest_finish (fst (created_remote i req)) = Inr (JObj [(''key'', JStr ''PROJ-1'')])"
    by (simp add: created_remote_def jiraRequest_finish_def ok_response_def)
  have env: "\<And>i req. snd (created_remote i req) = example_env"
    by (simp add: created_remote_def)
  from jiraRequest_body_guard [OF cfg, of created_remote "''/rest/api/3/issue''"
      "\<lparr>ri_method = Some ''POST'', ri_headers = None, ri_body = BodyOther ''URLSearchParams''\<rparr>"]
  have a: "\<exists>req. jiraRequest created_remote ''/rest/api/3/issue''
                \<lparr>ri_method = Some ''POST'', ri_headers = None, ri_body = BodyOther ''URLSearchParams''\<rparr> start =
              (Inr (JObj [(''key'', JStr ''PROJ-1'')]), \<lparr>penv = example_env, sent = [req]\<rparr>)
            \<and> req_url req = ''https://example.atlassian.net/rest/api/3/issue''
            \<and> req_body req = None"
    by (simp add: fin env start_def)
  from jiraRequest_body_guard [OF cfg, of created_remote "''/rest/api/3/issue''"
      "\<lparr>ri_method = Some ''POST'', ri_headers = None, ri_body = BodyString ''{}''\<rparr>"]
  have b: "\<exists>req. jiraRequest created_remote ''/rest/api/3/issue''
                \<lparr>ri_method = Some ''POST'', ri_headers = None, ri_body = BodyString ''{}''\<rparr> start =
              (Inr (JObj [(''key'', JStr ''PROJ-1'')]), \<lparr>penv = example_env, sent = [req]\<rparr>)
            \<and> req_body req = Some (BodyString ''{}'')"
    by (auto simp add: fin env start_def)
  from cfg a b show ?thesis by blast
qed

subsection \<open>logWork\<close>

lemma JSON_stringify_object: "\<exists>t. JSON_stringify (JObj kvs) = BodyString t"
  by (simp add: JSON_stringify_def)

lemma safeBody_stringify_object: "safeBody (JSON_stringify (JObj kvs)) = Some (JSON_stringify (JObj kvs))"
  using JSON_stringify_object [of kvs] by auto

text \<open>
  C7: with the configuration present and a truthy issue key and time spent,
  \<^verbatim>\<open>logWork.run\<close> sends one POST request to the worklog path of the issue. Its body is
  the JSON text of an object with the single property \<^verbatim>\<open>timeSpent\<close> when no (truthy)
  comment is given, and of an object with \<^verbatim>\<open>timeSpent\<close> and \<^verbatim>\<open>comment\<close> when one is.
  When the request succeeds the command returns \<^verbatim>\<open>{success: true, message}\<close>.
\<close>

theorem logWork_request_body:
  assumes cfg: "getJiraConfig (penv s) = Inr cfg"
    and key: "truthy (own_prop input ''issueKey'')"
    and spent: "truthy (own_prop input ''timeSpent'')"
  shows "\<exists>req. sent (snd (logWork_run R input s)) = sent s @ [req]
      \<and> req_url req = JIRA_BASE_URL cfg @ ''/rest/api/3/issue/''
            @ js_toString (own_prop input ''issueKey'') @ ''/worklog''
      \<and> req_method req = Some ''POST''
      \<and> req_body req = Some (JSON_stringify (JObj
            (if truthy (own_prop input ''comment'')
             then [(''timeSpent'', own_prop input ''timeSpent''), (''comment'', own_prop input ''comment'')]
             else [(''timeSpent'', own_prop input ''timeSpent'')])))
      \<and> ((\<exists>v. jiraRequest_finish (fst (R (length (sent s)) req)) = Inr v) \<longrightarrow>
           fst (logWork_run R input s) =
             Inr (JObj [(''success'', JBool True),
                        (''message'', JStr (''Worklog added to '' @ js_toString (own_prop input ''issueKey'')))]))"
proof -
  let ?path = "''/rest/api/3/issue/'' @ js_toString (own_prop input ''issueKey'') @ ''/worklog''"
  let ?body = "JSON_stringify (JObj (addWorklog_body (own_prop input ''timeSpent'') (own_prop input ''comment'')))"
  let ?opts = "\<lparr>ri_method = Some ''POST'', ri_headers = Some json_headers, ri_body = ?body\<rparr>"
  let ?req = "build_request cfg ?path ?opts"
  have call: "jiraApi_addWorklog R (own_prop input ''issueKey'') (own_prop input ''timeSpent'')
                (own_prop input ''comment'') s =
      (jiraRequest_finish (fst (R (length (sent s)) ?req)),
       \<lparr>penv = snd (R (length (sent s)) ?req), sent = sent s @ [?req]\<rparr>)"
    unfolding jiraApi_addWorklog_def by (rule jiraRequest_with_config [OF cfg])
  have sent: "sent (snd (logWork_run R input s)) = sent s @ [?req]"
    using key spent by (simp add: logWork_run_def call)
  have url: "req_url ?req = JIRA_BASE_URL cfg @ ?path"
    by (simp add: build_request_def)
  have meth: "req_method ?req = Some ''POST''"
    by (simp add: build_request_def)
  have "req_body ?req = Some ?body"
    by (simp add: build_request_def safeBody_stringify_object)
  then have body: "req_body ?req = Some (JSON_stringify (JObj
            (if truthy (own_prop input ''comment'')
             then [(''timeSpent'', own_prop input ''timeSpent''), (''comment'', own_prop input ''comment'')]
             else [(''timeSpent'', own_prop input ''timeSpent'')])))"
    by (simp add: addWorklog_body_def)
  have res: "(\<exists>v. jiraRequest_finish (fst (R (length (sent s)) ?req)) = Inr v) \<longrightarrow>
           fst (logWork_run R input s) =
             Inr (JObj [(''success'', JBool True),
                        (''message'', JStr (''Worklog added to '' @ js_toString (own_prop input ''issueKey'')))])"
    using key spent by (auto simp add: logWork_run_def call caught_def bind_err_def)
  from sent url meth body res show ?thesis
    by blast
qed

lemma start_config:
  "getJiraConfig (penv start) = Inr \<lparr>JIRA_BASE_URL = ''https://example.atlassian.net'',
       JIRA_EMAIL = ''dev@example.com'', JIRA_API_TOKEN = ''token''\<rparr>"
  by (simp add: start_def example_config)

lemma created_remote_finish:
  "jiraRequest_finish (fst (created_remote i req)) = Inr (JObj [(''key'', JStr ''PROJ-1'')])"
  by (simp add: created_remote_def jiraRequest_finish_def ok_response_def)

theorem logWork_request_body_witness:
  "(\<exists>req. sent (snd (logWork_run created_remote worklog_input start)) = [req]
      \<and> req_url req = ''https://example.atlassian.net/rest/api/3/issue/PROJ-123/worklog''
      \<and> req_body req = Some (BodyString
           (''{'' @ [CHR 0x22] @ ''timeSpent'' @ [CHR 0x22] @ '':'' @ [CHR 0x22] @ ''2h'' @ [CHR 0x22] @ ''}''))
      \<and> fst (logWork_run created_remote worklog_input start) =
           Inr (JObj [(''success'', JBool True), (''message'', JStr ''Worklog added to PROJ-123'')]))
   \<and> (\<exists>req. sent (snd (logWork_run created_remote worklog_input_comment start)) = [req]
      \<and> req_body req = Some (BodyString
           (''{'' @ [CHR 0x22] @ ''timeSpent'' @ [CHR 0x22] @ '':'' @ [CHR 0x22] @ ''30m'' @ [CHR 0x22]
             @ '','' @ [CHR 0x22] @ ''comment'' @ [CHR 0x22] @ '':'' @ [CHR 0x22] @ ''bugfix'' @ [CHR 0x22] @ ''}'')))"
proof -
  have k1: "truthy (own_prop worklog_input ''issueKey'')"
    and t1: "truthy (own_prop worklog_input ''timeSpent'')"
    and c1: "\<not> truthy (own_prop worklog_input ''comment'')"
    by (simp_all add: worklog_input_def own_prop_def)
  have k2: "truthy (own_prop worklog_input_comment ''issueKey'')"
    and t2: "truthy (own_prop worklog_input_comment ''timeSpent'')"
    and c2: "truthy (own_prop worklog_input_comment ''comment'')"
    by (simp_all add: worklog_input_comment_def own_prop_def)
  have j1: "JSON_stringify (JObj [(''timeSpent'', own_prop worklog_input ''timeSpent'')]) =
      BodyString (''{'' @ [CHR 0x22] @ ''timeSpent'' @ [CHR 0x22] @ '':'' @ [CHR 0x22] @ ''2h'' @ [CHR 0x22] @ ''}'')"
    by (simp add: worklog_input_def own_prop_def JSON_stringify_def json_quote_def json_escape_def)
  have j2: "JSON_stringify (JObj [(''timeSpent'', own_prop worklog_input_comment ''timeSpent''),
                                  (''comment'', own_prop worklog_input_comment ''comment'')]) =
      BodyString (''{'' @ [CHR 0x22] @ ''timeSpent'' @ [CHR 0x22] @ '':'' @ [CHR 0x22] @ ''30m'' @ [CHR 0x22]
             @ '','' @ [CHR 0x22] @ ''comment'' @ [CHR 0x22] @ '':'' @ [CHR 0x22] @ ''bugfix'' @ [CHR 0x22] @ ''}'')"
    by (simp add: worklog_input_comment_def own_prop_def JSON_stringify_def json_quote_def json_escape_def)
  have u1: "js_toString (own_prop worklog_input ''issueKey'') = ''PROJ-123''"
    by (simp add: worklog_input_def own_prop_def)
  from logWork_request_body [OF start_config k1 t1, of created_remote]
  have a: "\<exists>req. sent (snd (logWork_run created_remote worklog_input start)) = [req]
      \<and> req_url req = ''https://example.atlassian.net/rest/api/3/issue/PROJ-123/worklog''
      \<and> req_body req = Some (BodyString
           (''{'' @ [CHR 0x22] @ ''timeSpent'' @ [CHR 0x22] @ '':'' @ [CHR 0x22] @ ''2h'' @ [CHR 0x22] @ ''}''))
      \<and> fst (logWork_run created_remote worklog_input start) =
           Inr (JObj [(''success'', JBool True), (''message'', JStr ''Worklog added to PROJ-123'')])"
    unfolding created_remote_finish u1 using c1 j1 by (auto simp add: start_def)
  from logWork_request_body [OF start_config k2 t2, of created_remote]
  have b: "\<exists>req. sent (snd (logWork_run created_remote worklog_input_comment start)) = [req]
      \<and> req_body req = Some (BodyString
           (''{'' @ [CHR 0x22] @ ''timeSpent'' @ [CHR 0x22] @ '':'' @ [CHR 0x22] @ ''30m'' @ [CHR 0x22]
             @ '','' @ [CHR 0x22] @ ''comment'' @ [CHR 0x22] @ '':'' @ [CHR 0x22] @ ''bugfix'' @ [CHR 0x22] @ ''}''))"
    using c2 j2 by (auto simp add: start_def)
  from a b show ?thesis by blast
qed

subsection \<open>createIssue\<close>




subsection \<open>Validation of required fields\<close>

text \<open>
  C8: when \<^verbatim>\<open>projectKey\<close> is missing (or otherwise falsy), or \<^verbatim>\<open>issues\<close> is missing or
  not an array, or \<^verbatim>\<open>issues\<close> is the empty array, \<^verbatim>\<open>batchCreateIssues.run\<close> returns
  the single object \<^verbatim>\<open>{error: true, message}\<close>, not a list, and the process state is
  unchanged: no request has been sent.
\<close>

theorem batchCreateIssues_invalid_input:
  assumes "\<not> truthy (own_prop input ''projectKey'') \<or> \<not> is_array (own_prop input ''issues'')
           \<or> own_prop input ''issues'' = JArr []"
  shows "batchCreateIssues_run R input s =
           (Inr (JObj [(''error'', JBool True),
                       (''message'', JStr ''Missing projectKey or issues array is empty'')]), s)"
  using assms by (auto simp add: batchCreateIssues_run_def)

theorem batchCreateIssues_invalid_input_witness:
  "batchCreateIssues_run created_remote [(''issues'', JArr [JObj [(''summary'', JStr ''Task 1'')]])] start =
     (Inr (JObj [(''error'', JBool True),
                 (''message'', JStr ''Missing projectKey or issues array is empty'')]), start)
   \<and> batchCreateIssues_run created_remote [(''projectKey'', JStr ''PROJ'')] start =
     (Inr (JObj [(''error'', JBool True),
                 (''message'', JStr ''Missing projectKey or issues array is empty'')]), start)
   \<and> batchCreateIssues_run created_remote [(''projectKey'', JStr ''PROJ''), (''issues'', JStr ''Task 1'')] start =
     (Inr (JObj [(''error'', JBool True),
                 (''message'', JStr ''Missing projectKey or issues array is empty'')]), start)
   \<and> batchCreateIssues_run created_remote [(''projectKey'', JStr ''PROJ''), (''issues'', JArr [])] start =
     (Inr (JObj [(''error'', JBool True),
                 (''message'', JStr ''Missing projectKey or issues array is empty'')]), start)
   \<and> sent start = []"
proof -
  have a: "\<not> truthy (own_prop [(''issues'', JArr [JObj [(''summary'', JStr ''Task 1'')]])] ''projectKey'')"
    by (simp add: own_prop_def)
  have b: "\<not> is_array (own_prop [(''projectKey'', JStr ''PROJ'')] ''issues'')"
    by (simp add: own_prop_def)
  have c: "\<not> is_array (own_prop [(''projectKey'', JStr ''PROJ''), (''issues'', JStr ''Task 1'')] ''issues'')"
    by (simp add: own_prop_def)
  have d: "own_prop [(''projectKey'', JStr ''PROJ''), (''issues'', JArr [])] ''issues'' = JArr []"
    by (simp add: own_prop_def)
  show ?thesis
    using batchCreateIssues_invalid_input [OF disjI1, OF a, of created_remote start]
      batchCreateIssues_invalid_input [OF disjI2, OF disjI1, OF b, of created_remote start]
      batchCreateIssues_invalid_input [OF disjI2, OF disjI1, OF c, of created_remote start]
      batchCreateIssues_invalid_input [OF disjI2, OF disjI2, OF d, of created_remote start]
    by (simp add: start_def)
qed

lemma empty_or_absent_falsy: "empty_or_absent v \<Longrightarrow> \<not> truthy v"
  by (auto simp add: empty_or_absent_def)

text \<open>
  C10: the validation tests truthiness, so a required field that is the empty string is
  treated as one that is absent: with \<^verbatim>\<open>projectKey\<close>, \<^verbatim>\<open>summary\<close> or \<^verbatim>\<open>issueType\<close>
  empty or absent \<^verbatim>\<open>createIssue.run\<close> returns its \<^verbatim>\<open>{error: true, message}\<close> and sends
  nothing; likewise \<^verbatim>\<open>logWork.run\<close> for \<^verbatim>\<open>issueKey\<close> and \<^verbatim>\<open>timeSpent\<close>, and
  \<^verbatim>\<open>batchCreateIssues.run\<close> for \<^verbatim>\<open>projectKey\<close>.
\<close>

theorem empty_string_counts_as_missing:
  "(empty_or_absent (own_prop input ''projectKey'') \<or> empty_or_absent (own_prop input ''summary'')
      \<or> empty_or_absent (own_prop input ''issueType'') \<longrightarrow>
      createIssue_run R input s =
        (Inr (JObj [(''error'', JBool True),
                    (''message'', JStr ''Missing required fields: projectKey, summary, or issueType'')]), s))
   \<and> (empty_or_absent (own_prop input ''issueKey'') \<or> empty_or_absent (own_prop input ''timeSpent'') \<longrightarrow>
      logWork_run R input s =
        (Inr (JObj [(''error'', JBool True),
                    (''message'', JStr ''Missing required fields: issueKey or timeSpent'')]), s))
   \<and> (empty_or_absent (own_prop input ''projectKey'') \<longrightarrow>
      batchCreateIssues_run R input s =
        (Inr (JObj [(''error'', JBool True),
                    (''message'', JStr ''Missing projectKey or issues array is empty'')]), s))"
proof (intro conjI impI)
  assume "empty_or_absent (own_prop input ''projectKey'') \<or> empty_or_absent (own_prop input ''summary'')
      \<or> empty_or_absent (own_prop input ''issueType'')"
  then have "\<not> truthy (own_prop input ''projectKey'') \<or> \<not> truthy (own_prop input ''summary'')
      \<or> \<not> truthy (own_prop input ''issueType'')"
    using empty_or_absent_falsy by blast
  then show "createIssue_run R input s =
        (Inr (JObj [(''error'', JBool True),
                    (''message'', JStr ''Missing required fields: projectKey, summary, or issueType'')]), s)"
    by (simp add: createIssue_run_def)
next
  assume "empty_or_absent (own_prop input ''issueKey'') \<or> empty_or_absent (own_prop input ''timeSpent'')"
  then have "\<not> truthy (own_prop input ''issueKey'') \<or> \<not> truthy (own_prop input ''timeSpent'')"
    using empty_or_absent_falsy by blast
  then show "logWork_run R input s =
        (Inr (JObj [(''error'', JBool True),
                    (''message'', JStr ''Missing required fields: issueKey or timeSpent'')]), s)"
    by (simp add: logWork_run_def)
next
  assume "empty_or_absent (own_prop input ''projectKey'')"
  then have "\<not> truthy (own_prop input ''projectKey'')"
    by (rule empty_or_absent_falsy)
  then show "batchCreateIssues_run R input s =
        (Inr (JObj [(''error'', JBool True),
                    (''message'', JStr ''Missing projectKey or issues array is empty'')]), s)"
    by (simp add: batchCreateIssues_run_def)
qed

theorem empty_string_counts_as_missing_witness:
  "createIssue_run created_remote
        [(''projectKey'', JStr ''PROJ''), (''summary'', JStr []), (''issueType'', JStr ''Task'')] start =
        (Inr (JObj [(''error'', JBool True),
                    (''message'', JStr ''Missing required fields: projectKey, summary, or issueType'')]), start)
   \<and> createIssue_run created_remote
        [(''projectKey'', JStr ''PROJ''), (''summary'', JStr []), (''issueType'', JStr ''Task'')] start =
      createIssue_run created_remote [(''projectKey'', JStr ''PROJ''), (''issueType'', JStr ''Task'')] start
   \<and> logWork_run created_remote [(''issueKey'', JStr ''PROJ-123''), (''timeSpent'', JStr [])] start =
        (Inr (JObj [(''error'', JBool True),
                    (''message'', JStr ''Missing required fields: issueKey or timeSpent'')]), start)
   \<and> batchCreateIssues_run created_remote
        [(''projectKey'', JStr []), (''issues'', JArr [JObj [(''summary'', JStr ''Task 1'')]])] start =
        (Inr (JObj [(''error'', JBool True),
                    (''message'', JStr ''Missing projectKey or issues array is empty'')]), start)
   \<and> sent start = []"
proof -
  have a: "empty_or_absent (own_prop [(''projectKey'', JStr ''PROJ''), (''summary'', JStr []), (''issueType'', JStr ''Task'')] ''summary'')"
    by (simp add: own_prop_def empty_or_absent_def)
  have a': "empty_or_absent (own_prop [(''projectKey'', JStr ''PROJ''), (''issueType'', JStr ''Task'')] ''summary'')"
    by (simp add: own_prop_def empty_or_absent_def)
  have b: "empty_or_absent (own_prop [(''issueKey'', JStr ''PROJ-123''), (''timeSpent'', JStr [])] ''timeSpent'')"
    by (simp add: own_prop_def empty_or_absent_def)
  have c: "empty_or_absent (own_prop [(''projectKey'', JStr []), (''issues'', JArr [JObj [(''summary'', JStr ''Task 1'')]])] ''projectKey'')"
    by (simp add: own_prop_def empty_or_absent_def)
  have d: "sent start = []"
    by (simp add: start_def)
  show ?thesis
    using a a' b c d
      empty_string_counts_as_missing [of "[(''projectKey'', JStr ''PROJ''), (''summary'', JStr []), (''issueType'', JStr ''Task'')]" created_remote start]
      empty_string_counts_as_missing [of "[(''projectKey'', JStr ''PROJ''), (''issueType'', JStr ''Task'')]" created_remote start]
      empty_string_counts_as_missing [of "[(''issueKey'', JStr ''PROJ-123''), (''timeSpent'', JStr [])]" created_remote start]
      empty_string_counts_as_missing [of "[(''projectKey'', JStr []), (''issues'', JArr [JObj [(''summary'', JStr ''Task 1'')]])]" created_remote start]
    by simp
qed

subsection \<open>getIssueDetails\<close>

lemma js_or_object: "js_or (JObj kvs) v = JObj kvs"
  by (simp add: js_or_def)

lemma js_join_strings: "js_join sep (map JStr ts) = join_str sep ts"
  by (simp add: js_join_def join_elem_def comp_def)

lemma map_err_text_nodes:
  "list_all2 text_node_of nodes ts \<Longrightarrow> map_err (\<lambda>t. get_prop t ''text'') nodes = Inr (map JStr ts)"
  by (induction nodes ts rule: list_all2_induct) (simp_all add: text_node_of_def)

lemma flatten_block_of:
  assumes "block_of b ts"
  shows "flatten_block b = Inr (JStr (join_str '' '' ts))"
proof -
  from assms obtain nodes where c: "get_prop b ''content'' = Inr (JArr nodes)"
    and n: "list_all2 text_node_of nodes ts"
    by (auto simp add: block_of_def split: sum.splits jsval.splits)
  from n have "map_err (\<lambda>t. get_prop t ''text'') nodes = Inr (map JStr ts)"
    by (rule map_err_text_nodes)
  with c show ?thesis
    by (simp add: flatten_block_def bind_err_def js_join_strings)
qed

lemma map_err_blocks:
  "list_all2 block_of blocks bs \<Longrightarrow>
   map_err flatten_block blocks = Inr (map (\<lambda>ts. JStr (join_str '' '' ts)) bs)"
  by (induction blocks bs rule: list_all2_induct) (simp_all add: flatten_block_of)

lemma flatten_description_document:
  assumes d: "get_prop fs ''description'' = Inr d" and doc: "document_of d bs"
  shows "flatten_description fs = Inr (JStr (join_str [CHR 0x0A] (map (join_str '' '') bs)))"
proof -
  from doc obtain blocks where c: "opt_prop d ''content'' = JArr blocks"
    and b: "list_all2 block_of blocks bs"
    by (auto simp add: document_of_def split: jsval.splits)
  from b have m: "map_err flatten_block blocks = Inr (map (\<lambda>ts. JStr (join_str '' '' ts)) bs)"
    by (rule map_err_blocks)
  have j: "js_join [CHR 0x0A] (map (\<lambda>ts. JStr (join_str '' '' ts)) bs)
         = join_str [CHR 0x0A] (map (join_str '' '') bs)"
    using js_join_strings [of "[CHR 0x0A]" "map (join_str '' '') bs"] by (simp add: comp_def)
  from d c m j show ?thesis
    by (simp add: flatten_description_def bind_err_def)
qed

lemma flatten_description_absent:
  assumes d: "get_prop fs ''description'' = Inr d" and n: "nullish d"
  shows "flatten_description fs = Inr JNull"
proof -
  from n have "opt_prop d ''content'' = JUndefined"
    by (cases d) (simp_all add: opt_prop_def)
  with d show ?thesis
    by (simp add: flatten_description_def bind_err_def)
qed

lemma map_err_subtasks:
  "list_all (\<lambda>x. \<not> nullish x) xs \<Longrightarrow> \<exists>ys. map_err subtask_summary xs = Inr ys"
proof (induction xs)
  case Nil
  then show ?case by simp
next
  case (Cons x xs)
  then obtain ys where ys: "map_err subtask_summary xs = Inr ys"
    by auto
  from Cons.prems have "\<not> nullish x" by simp
  then obtain y where "subtask_summary x = Inr y"
    by (cases x) (simp_all add: subtask_summary_def bind_err_def)
  with ys show ?case by simp
qed

lemma subtask_list_wf:
  assumes "wf_subtasks (own_prop fs ''subtasks'')"
  shows "\<exists>sub. subtask_list (JObj fs) = Inr sub"
proof (cases "own_prop fs ''subtasks''")
  case (JArr xs)
  with assms have "list_all (\<lambda>x. \<not> nullish x) xs"
    by (simp add: wf_subtasks_def)
  then obtain ys where "map_err subtask_summary xs = Inr ys"
    using map_err_subtasks by blast
  with JArr show ?thesis
    by (simp add: subtask_list_def bind_err_def js_or_def)
qed (use assms in \<open>simp_all add: wf_subtasks_def subtask_list_def bind_err_def js_or_def\<close>)

text \<open>
  C3: for a fetched issue (with a \<^verbatim>\<open>fields\<close> object and well-formed subtasks),
  \<^verbatim>\<open>getIssueDetails.run\<close> returns an object whose \<^verbatim>\<open>description\<close> is, for a
  description document with the blocks \<open>bs\<close>, the texts of every block joined by one
  space and the blocks joined by a newline, and is \<^verbatim>\<open>null\<close> when the issue has no
  description. The blocks \<open>[[a, b], [c]]\<close> give \<^verbatim>\<open>"a b\nc"\<close> (the witness).
\<close>

theorem getIssueDetails_description:
  assumes fetched: "jiraApi_getIssue R (own_prop input ''issueIdOrKey'') s = (Inr (JObj data), s')"
    and flds: "own_prop data ''fields'' = JObj fs"
    and subs: "wf_subtasks (own_prop fs ''subtasks'')"
  shows "\<exists>res. getIssueDetails_run R input s = (Inr (JObj res), s')
     \<and> (\<forall>bs. document_of (own_prop fs ''description'') bs \<longrightarrow>
           own_prop res ''description'' = JStr (join_str [CHR 0x0A] (map (join_str '' '') bs)))
     \<and> (nullish (own_prop fs ''description'') \<longrightarrow> own_prop res ''description'' = JNull)"
proof -
  from subs obtain sub where sub: "subtask_list (JObj fs) = Inr sub"
    using subtask_list_wf by blast
  have d: "get_prop (JObj fs) ''description'' = Inr (own_prop fs ''description'')"
    by simp
  have details: "issue_details (JObj data) =
      bind_err (flatten_description (JObj fs)) (\<lambda>description.
        Inr (JObj [(''key'', own_prop data ''key''),
                   (''summary'', own_prop fs ''summary''),
                   (''status'', opt_prop (own_prop fs ''status'') ''name''),
                   (''assignee'', js_or (opt_prop (own_prop fs ''assignee'') ''displayName'') JNull),
                   (''description'', description),
                   (''epicLink'', js_or (own_prop fs ''customfield_10008'') JNull),
                   (''subtasks'', sub)]))"
    using flds sub by (simp add: issue_details_def bind_err_def Let_def js_or_object split: sum.splits)
  have run: "getIssueDetails_run R input s = (Inr (caught (issue_details (JObj data))), s')"
    using fetched by (simp add: getIssueDetails_run_def bind_err_def)
  show ?thesis
  proof (cases "flatten_description (JObj fs)")
    case (Inl e)
    have no_doc: "\<not> document_of (own_prop fs ''description'') bs" for bs
      using flatten_description_document [OF d, of bs] Inl by auto
    have not_null: "\<not> nullish (own_prop fs ''description'')"
      using flatten_description_absent [OF d] Inl by auto
    from Inl have "getIssueDetails_run R input s =
        (Inr (JObj [(''error'', JBool True), (''message'', JStr (message e))]), s')"
      by (simp add: run details bind_err_def caught_def catch_error_def)
    with no_doc not_null show ?thesis
      by blast
  next
    case (Inr desc)
    let ?res = "[(''key'', own_prop data ''key''),
                 (''summary'', own_prop fs ''summary''),
                 (''status'', opt_prop (own_prop fs ''status'') ''name''),
                 (''assignee'', js_or (opt_prop (own_prop fs ''assignee'') ''displayName'') JNull),
                 (''description'', desc),
                 (''epicLink'', js_or (own_prop fs ''customfield_10008'') JNull),
                 (''subtasks'', sub)]"
    from Inr have r: "getIssueDetails_run R input s = (Inr (JObj ?res), s')"
      by (simp add: run details bind_err_def caught_def)
    have p: "own_prop ?res ''description'' = desc"
      by (simp add: own_prop_def)
    have doc: "desc = JStr (join_str [CHR 0x0A] (map (join_str '' '') bs))"
      if "document_of (own_prop fs ''description'') bs" for bs
      using flatten_description_document [OF d that] Inr by simp
    have null: "desc = JNull" if "nullish (own_prop fs ''description'')"
      using flatten_description_absent [OF d that] Inr by simp
    from r p doc null show ?thesis
      by (intro exI [of _ ?res]) (simp only: simp_thms, blast)
  qed
qed

theorem getIssueDetails_description_witness:
  "\<exists>res s'. getIssueDetails_run issue_remote [(''issueIdOrKey'', JStr ''PROJ-123'')] start = (Inr (JObj res), s')
     \<and> own_prop res ''description'' = JStr (''a b'' @ [CHR 0x0A] @ ''c'')"
proof -
  let ?cfg = "\<lparr>JIRA_BASE_URL = ''https://example.atlassian.net'',
                 JIRA_EMAIL = ''dev@example.com'', JIRA_API_TOKEN = ''token''\<rparr>"
  let ?req = "build_request ?cfg ''/rest/api/3/issue/PROJ-123'' no_options"
  let ?data = "[(''key'', JStr ''PROJ-123''),
           (''fields'', JObj
              [(''summary'', JStr ''Fix login''),
               (''description'', JObj
                  [(''type'', JStr ''doc''),
                   (''content'', JArr
                      [JObj [(''type'', JStr ''paragraph''),
                             (''content'', JArr [JObj [(''type'', JStr ''text''), (''text'', JStr ''a'')],
                                                 JObj [(''type'', JStr ''text''), (''text'', JStr ''b'')]])],
                       JObj [(''type'', JStr ''paragraph''),
                             (''content'', JArr [JObj [(''type'', JStr ''text''), (''text'', JStr ''c'')]])]])]),
               (''subtasks'', JArr [])])]"
  let ?fs = "[(''summary'', JStr ''Fix login''),
               (''description'', JObj
                  [(''type'', JStr ''doc''),
                   (''content'', JArr
                      [JObj [(''type'', JStr ''paragraph''),
                             (''content'', JArr [JObj [(''type'', JStr ''text''), (''text'', JStr ''a'')],
                                                 JObj [(''type'', JStr ''text''), (''text'', JStr ''b'')]])],
                       JObj [(''type'', JStr ''paragraph''),
                             (''content'', JArr [JObj [(''type'', JStr ''text''), (''text'', JStr ''c'')]])]])]),
               (''subtasks'', JArr [])]"
  have fetched: "jiraApi_getIssue issue_remote (own_prop [(''issueIdOrKey'', JStr ''PROJ-123'')] ''issueIdOrKey'') start
      = (Inr (JObj ?data), \<lparr>penv = example_env, sent = [?req]\<rparr>)"
    unfolding jiraApi_getIssue_def jiraRequest_with_config [OF start_config]
    by (simp add: issue_remote_def issue_json_def jiraRequest_finish_def ok_response_def start_def own_prop_def)
  have flds: "own_prop ?data ''fields'' = JObj ?fs"
    by (simp add: own_prop_def)
  have subs: "wf_subtasks (own_prop ?fs ''subtasks'')"
    by (simp add: own_prop_def wf_subtasks_def)
  have doc: "document_of (own_prop ?fs ''description'') [[''a'', ''b''], [''c'']]"
    by (simp add: own_prop_def document_of_def opt_prop_def block_of_def text_node_of_def)
  from getIssueDetails_description [OF fetched flds subs] doc
  show ?thesis
    by auto
qed

subsection \<open>batchCreateIssues\<close>

lemma get_prop_non_nullish: "\<not> nullish v \<Longrightarrow> get_prop v k = Inr (opt_prop v k)"
  by (cases v) (simp_all add: opt_prop_def)

lemma batch_catch_non_nullish:
  "\<not> nullish issue \<Longrightarrow>
   batch_catch issue e =
     Inr (JObj [(''error'', JBool True), (''message'', JStr (message e)),
                (''summary'', opt_prop issue ''summary'')])"
  by (simp add: batch_catch_def bind_err_def get_prop_non_nullish)

lemma batch_request_no_config:
  "\<not> nullish issue \<Longrightarrow> getJiraConfig E = Inl e \<Longrightarrow> batch_request E pk issue = Inl e"
  by (simp add: batch_request_def batch_item_input_def bind_err_def get_prop_non_nullish
      jiraRequest_prepare_def)

lemma batch_request_config:
  "\<not> nullish issue \<Longrightarrow> getJiraConfig E = Inr cfg \<Longrightarrow> \<exists>req. batch_request E pk issue = Inr req"
  by (simp add: batch_request_def batch_item_input_def bind_err_def get_prop_non_nullish
      jiraRequest_prepare_def)

lemma start_all_threw:
  "\<forall>x\<in>set issues. batch_request (penv s) pk x = Inl e \<Longrightarrow>
   start_all pk issues s = (map (\<lambda>x. Threw e) issues, s)"
  by (induction issues) (simp_all add: batch_start_def)

lemma start_all_awaiting:
  "\<forall>x\<in>set issues. \<exists>req. batch_request (penv s) pk x = Inr req \<Longrightarrow>
   start_all pk issues s =
     (map (\<lambda>(i, x). Awaiting i (projr (batch_request (penv s) pk x)))
        (zip [length (sent s)..<length (sent s) + length issues] issues),
      s\<lparr>sent := sent s @ map (\<lambda>x. projr (batch_request (penv s) pk x)) issues\<rparr>)"
proof (induction issues arbitrary: s)
  case Nil
  then show ?case by simp
next
  case (Cons x xs)
  from Cons.prems obtain req where req: "batch_request (penv s) pk x = Inr req"
    by auto
  let ?s' = "s\<lparr>sent := sent s @ [req]\<rparr>"
  have env: "penv ?s' = penv s" by simp
  have "\<forall>y\<in>set xs. \<exists>r. batch_request (penv ?s') pk y = Inr r"
    using Cons.prems by simp
  from Cons.IH [OF this]
  have IH: "start_all pk xs ?s' =
     (map (\<lambda>(i, y). Awaiting i (projr (batch_request (penv s) pk y)))
        (zip [Suc (length (sent s))..<Suc (length (sent s)) + length xs] xs),
      s\<lparr>sent := sent s @ req # map (\<lambda>y. projr (batch_request (penv s) pk y)) xs\<rparr>)"
    by simp
  have upt: "[length (sent s)..<length (sent s) + length (x # xs)] =
             length (sent s) # [Suc (length (sent s))..<Suc (length (sent s)) + length xs]"
    by (subst upt_rec) simp
  show ?case
    unfolding upt by (simp add: batch_start_def req send_def IH)
qed

lemma fst_batch_finish_state:
  "fst (batch_finish R issue p s) = fst (batch_finish R issue p t)"
  by (cases p) (simp_all add: receive_def split: prod.splits sum.splits)

lemma fst_finish_all:
  "fst (finish_all R ips s) = map (\<lambda>(issue, p). fst (batch_finish R issue p s)) ips"
proof (induction ips arbitrary: s)
  case Nil
  then show ?case by simp
next
  case (Cons ip ips)
  obtain issue p where ip: "ip = (issue, p)" by (cases ip)
  obtain r s' where step: "batch_finish R issue p s = (r, s')" by (cases "batch_finish R issue p s")
  obtain rs s'' where rest: "finish_all R ips s' = (rs, s'')" by (cases "finish_all R ips s'")
  have "rs = map (\<lambda>(issue, p). fst (batch_finish R issue p s')) ips"
    using Cons.IH [of s'] rest by simp
  also have "\<dots> = map (\<lambda>(issue, p). fst (batch_finish R issue p s)) ips"
    using fst_batch_finish_state [of R _ _ s' s] by simp
  finally show ?case
    by (simp add: ip step rest)
qed

lemma promise_all_values:
  "\<forall>r\<in>set rs. \<exists>v. r = Inr v \<Longrightarrow> promise_all rs = Inr (map projr rs)"
  unfolding promise_all_def by (induction rs) auto

lemma sent_batch_finish: "sent (snd (batch_finish R issue p s)) = sent s"
  by (cases p) (simp_all add: receive_def split: prod.splits sum.splits)

lemma sent_finish_all: "sent (snd (finish_all R ips s)) = sent s"
proof (induction ips arbitrary: s)
  case Nil
  then show ?case by simp
next
  case (Cons ip ips)
  obtain issue p where ip: "ip = (issue, p)" by (cases ip)
  obtain r s' where step: "batch_finish R issue p s = (r, s')" by (cases "batch_finish R issue p s")
  obtain rs s'' where rest: "finish_all R ips s' = (rs, s'')" by (cases "finish_all R ips s'")
  have "sent s'' = sent s'"
    using Cons.IH [of s'] rest by simp
  also have "\<dots> = sent s"
    using sent_batch_finish [of R issue p s] step by simp
  finally show ?case
    by (simp add: ip step rest)
qed

lemma item_settles:
  assumes nn: "\<not> nullish issue"
    and p: "p = (case batch_request E pk issue of Inl e \<Rightarrow> Threw e | Inr req \<Rightarrow> Awaiting j req)"
    and call: "call = (case batch_request E pk issue of
                         Inl e \<Rightarrow> (Inl e, E)
                       | Inr req \<Rightarrow> (case R j req of (out, E') \<Rightarrow> (jiraRequest_finish out, E')))"
  shows "\<exists>v. fst (batch_finish R issue p t) = Inr v
     \<and> (\<forall>e. fst call = Inl e \<longrightarrow>
          v = JObj [(''error'', JBool True), (''message'', JStr (message e)),
                    (''summary'', opt_prop issue ''summary'')])
     \<and> (\<forall>c k cfg. fst call = Inr c \<and> get_prop c ''key'' = Inr k \<and> getJiraConfig (snd call) = Inr cfg \<longrightarrow>
          v = JObj [(''key'', k),
                    (''url'', JStr (JIRA_BASE_URL cfg @ ''/browse/'' @ js_toString k)),
                    (''success'', JBool True)])"
proof (cases "batch_request E pk issue")
  case (Inl e)
  with nn p call show ?thesis
    by (simp add: batch_catch_non_nullish)
next
  case (Inr req)
  obtain out E' where r: "R j req = (out, E')" by (cases "R j req")
  from Inr p have p': "p = Awaiting j req" by simp
  from Inr call r have call': "call = (jiraRequest_finish out, E')" by simp
  show ?thesis
    unfolding p' call' using nn r
    by (auto simp add: receive_def bind_err_def batch_catch_non_nullish split: sum.splits)
qed

lemma start_all_pending:
  assumes nn: "\<forall>x\<in>set issues. \<not> nullish x"
  shows "length (fst (start_all pk issues s)) = length issues
     \<and> (\<forall>i<length issues.
           fst (start_all pk issues s) ! i =
             (case batch_request (penv s) pk (issues ! i) of
                Inl e \<Rightarrow> Threw e
              | Inr req \<Rightarrow> Awaiting (length (sent s) + i) req))
     \<and> (\<forall>i<length issues. \<forall>req. batch_request (penv s) pk (issues ! i) = Inr req \<longrightarrow>
           sent (snd (start_all pk issues s)) ! (length (sent s) + i) = req)"
proof (cases "getJiraConfig (penv s)")
  case (Inl e)
  with nn have all: "\<forall>x\<in>set issues. batch_request (penv s) pk x = Inl e"
    by (simp add: batch_request_no_config)
  then have "start_all pk issues s = (map (\<lambda>x. Threw e) issues, s)"
    by (rule start_all_threw)
  with all show ?thesis
    by simp
next
  case (Inr cfg)
  with nn have all: "\<forall>x\<in>set issues. \<exists>req. batch_request (penv s) pk x = Inr req"
    by (simp add: batch_request_config)
  let ?ps = "map (\<lambda>(i, x). Awaiting i (projr (batch_request (penv s) pk x)))
        (zip [length (sent s)..<length (sent s) + length issues] issues)"
  let ?s1 = "s\<lparr>sent := sent s @ map (\<lambda>x. projr (batch_request (penv s) pk x)) issues\<rparr>"
  from all have st: "start_all pk issues s = (?ps, ?s1)"
    by (rule start_all_awaiting)
  have nth: "?ps ! i = (case batch_request (penv s) pk (issues ! i) of
                       Inl e \<Rightarrow> Threw e
                     | Inr req \<Rightarrow> Awaiting (length (sent s) + i) req)"
    if "i < length issues" for i
  proof -
    from that all obtain req where "batch_request (penv s) pk (issues ! i) = Inr req"
      by (meson nth_mem)
    with that show ?thesis by simp
  qed
  have snt: "sent ?s1 ! (length (sent s) + i) = req"
    if "i < length issues" and "batch_request (penv s) pk (issues ! i) = Inr req" for i req
    using that by (simp add: nth_append)
  from nth snt show ?thesis
    unfolding st by simp
qed

lemma item_value:
  "\<not> nullish issue \<Longrightarrow> \<exists>v. fst (batch_finish R issue p t) = Inr v"
  by (cases p)
    (auto simp add: receive_def bind_err_def batch_catch_non_nullish split: sum.splits prod.splits)

text \<open>What the run returns, position by position, for any remote side.\<close>

lemma batch_run_positions:
  assumes pk: "truthy (own_prop input ''projectKey'')"
    and arr: "own_prop input ''issues'' = JArr issues"
    and ne: "issues \<noteq> []"
    and nn: "\<forall>x\<in>set issues. \<not> nullish x"
  shows "\<exists>results. fst (batchCreateIssues_run R input s) = Inr (JArr results)
     \<and> length results = length issues
     \<and> sent (snd (batchCreateIssues_run R input s)) =
         sent (snd (start_all (own_prop input ''projectKey'') issues s))
     \<and> (\<forall>i<length issues.
           Inr (results ! i) =
             fst (batch_finish R (issues ! i)
                   (fst (start_all (own_prop input ''projectKey'') issues s) ! i)
                   (snd (start_all (own_prop input ''projectKey'') issues s))))"
proof -
  let ?pk = "own_prop input ''projectKey''"
  obtain ps s1 where st: "start_all ?pk issues s = (ps, s1)"
    by (cases "start_all ?pk issues s")
  from start_all_pending [OF nn, of ?pk s]
  have len: "length ps = length issues"
    by (simp add: st)
  obtain rs s2 where fin: "finish_all R (zip issues ps) s1 = (rs, s2)"
    by (cases "finish_all R (zip issues ps) s1")
  have rs: "rs = map (\<lambda>(issue, p). fst (batch_finish R issue p s1)) (zip issues ps)"
    using fst_finish_all [of R "zip issues ps" s1] fin by simp
  have s2: "sent s2 = sent s1"
    using sent_finish_all [of R "zip issues ps" s1] fin by simp
  have lrs: "length rs = length issues"
    by (simp add: rs len)
  have rs_nth: "rs ! i = fst (batch_finish R (issues ! i) (ps ! i) s1)" if "i < length issues" for i
    using that by (simp add: rs len)
  have all_values: "\<forall>r\<in>set rs. \<exists>v. r = Inr v"
  proof
    fix r assume "r \<in> set rs"
    then obtain i where i: "i < length issues" and r: "r = rs ! i"
      using lrs by (auto simp add: in_set_conv_nth)
    from i nn have "\<not> nullish (issues ! i)" by simp
    then show "\<exists>v. r = Inr v"
      unfolding r rs_nth [OF i] by (rule item_value)
  qed
  then have pa: "promise_all rs = Inr (map projr rs)"
    by (rule promise_all_values)
  have run: "batchCreateIssues_run R input s = (Inr (JArr (map projr rs)), s2)"
    using pk arr ne by (simp add: batchCreateIssues_run_def st fin pa)
  have pos: "Inr (map projr rs ! i) = fst (batch_finish R (issues ! i) (ps ! i) s1)"
    if i: "i < length issues" for i
  proof -
    from i lrs have "rs ! i \<in> set rs" by simp
    with all_values obtain v where v: "rs ! i = Inr v" by blast
    from v rs_nth [OF i] have "fst (batch_finish R (issues ! i) (ps ! i) s1) = Inr v"
      by simp
    moreover from v i lrs have "map projr rs ! i = v"
      by simp
    ultimately show ?thesis by simp
  qed
  from run lrs s2 pos show ?thesis
    by (simp add: st)
qed

text \<open>
  Items that are objects: for a truthy project key and a non-empty list of items, none of
  them \<^verbatim>\<open>null\<close> or \<^verbatim>\<open>undefined\<close>, \<^verbatim>\<open>batchCreateIssues.run\<close> does not
  throw and returns a list with one outcome per item, in input order. The request of
  item \<open>i\<close>, when one is made, is the \<open>i\<close>-th request of the run. The outcome at
  position \<open>i\<close> depends on the create call of item \<open>i\<close> alone: when that call fails
  with \<open>e\<close> the outcome is \<^verbatim>\<open>{error: true, message, summary}\<close> with the message of \<open>e\<close>
  and the summary of item \<open>i\<close>; when it returns an issue with key \<open>k\<close> and the
  configuration can be read, the outcome is \<^verbatim>\<open>{key, url, success: true}\<close>. Whatever the
  remote side does with the other requests, the outcome at position \<open>i\<close> is the same.
\<close>

theorem batchCreateIssues_outcomes:
  assumes pk: "truthy (own_prop input ''projectKey'')"
    and arr: "own_prop input ''issues'' = JArr issues"
    and ne: "issues \<noteq> []"
    and nn: "\<forall>x\<in>set issues. \<not> nullish x"
  shows "\<exists>results. fst (batchCreateIssues_run R input s) = Inr (JArr results)
     \<and> length results = length issues
     \<and> (\<forall>i<length issues.
          (\<forall>req. batch_request (penv s) (own_prop input ''projectKey'') (issues ! i) = Inr req \<longrightarrow>
             sent (snd (batchCreateIssues_run R input s)) ! (length (sent s) + i) = req)
        \<and> (\<forall>e. fst (create_call R s (own_prop input ''projectKey'') issues i) = Inl e \<longrightarrow>
             results ! i = JObj [(''error'', JBool True), (''message'', JStr (message e)),
                                 (''summary'', opt_prop (issues ! i) ''summary'')])
        \<and> (\<forall>c k cfg. fst (create_call R s (own_prop input ''projectKey'') issues i) = Inr c
               \<and> get_prop c ''key'' = Inr k
               \<and> getJiraConfig (snd (create_call R s (own_prop input ''projectKey'') issues i)) = Inr cfg \<longrightarrow>
             results ! i = JObj [(''key'', k),
                                 (''url'', JStr (JIRA_BASE_URL cfg @ ''/browse/'' @ js_toString k)),
                                 (''success'', JBool True)])
        \<and> (\<forall>R'. (\<forall>req. R' (length (sent s) + i) req = R (length (sent s) + i) req) \<longrightarrow>
             (\<exists>results'. fst (batchCreateIssues_run R' input s) = Inr (JArr results')
                \<and> results' ! i = results ! i)))"
proof -
  let ?pk = "own_prop input ''projectKey''"
  let ?n = "length (sent s)"
  let ?ps = "fst (start_all ?pk issues s)"
  let ?s1 = "snd (start_all ?pk issues s)"
  from start_all_pending [OF nn, of ?pk s]
  have nth: "\<And>i. i < length issues \<Longrightarrow>
           ?ps ! i = (case batch_request (penv s) ?pk (issues ! i) of
                       Inl e \<Rightarrow> Threw e
                     | Inr req \<Rightarrow> Awaiting (?n + i) req)"
    and snt: "\<And>i req. i < length issues \<Longrightarrow> batch_request (penv s) ?pk (issues ! i) = Inr req \<Longrightarrow>
           sent ?s1 ! (?n + i) = req"
    by blast+
  have positions: "\<exists>results. fst (batchCreateIssues_run Q input s) = Inr (JArr results)
     \<and> length results = length issues
     \<and> sent (snd (batchCreateIssues_run Q input s)) = sent ?s1
     \<and> (\<forall>i<length issues. Inr (results ! i) = fst (batch_finish Q (issues ! i) (?ps ! i) ?s1))" for Q
    by (rule batch_run_positions [OF pk arr ne nn])
  from positions [of R] obtain results
    where run: "fst (batchCreateIssues_run R input s) = Inr (JArr results)"
      and len: "length results = length issues"
      and sent: "sent (snd (batchCreateIssues_run R input s)) = sent ?s1"
      and pos: "\<And>i. i < length issues \<Longrightarrow>
                 Inr (results ! i) = fst (batch_finish R (issues ! i) (?ps ! i) ?s1)"
    by blast
  have item: "(\<forall>e. fst (create_call R s ?pk issues i) = Inl e \<longrightarrow>
          results ! i = JObj [(''error'', JBool True), (''message'', JStr (message e)),
                    (''summary'', opt_prop (issues ! i) ''summary'')])
     \<and> (\<forall>c k cfg. fst (create_call R s ?pk issues i) = Inr c \<and> get_prop c ''key'' = Inr k
            \<and> getJiraConfig (snd (create_call R s ?pk issues i)) = Inr cfg \<longrightarrow>
          results ! i = JObj [(''key'', k),
                    (''url'', JStr (JIRA_BASE_URL cfg @ ''/browse/'' @ js_toString k)),
                    (''success'', JBool True)])"
    if i: "i < length issues" for i
  proof -
    from i nn have ok: "\<not> nullish (issues ! i)" by simp
    from item_settles [where R = R and t = ?s1 and call = "create_call R s ?pk issues i",
        OF ok nth [OF i] create_call_def]
    obtain v where v: "fst (batch_finish R (issues ! i) (?ps ! i) ?s1) = Inr v"
      and failed: "\<forall>e. fst (create_call R s ?pk issues i) = Inl e \<longrightarrow>
          v = JObj [(''error'', JBool True), (''message'', JStr (message e)),
                    (''summary'', opt_prop (issues ! i) ''summary'')]"
      and created: "\<forall>c k cfg. fst (create_call R s ?pk issues i) = Inr c \<and> get_prop c ''key'' = Inr k
            \<and> getJiraConfig (snd (create_call R s ?pk issues i)) = Inr cfg \<longrightarrow>
          v = JObj [(''key'', k),
                    (''url'', JStr (JIRA_BASE_URL cfg @ ''/browse/'' @ js_toString k)),
                    (''success'', JBool True)]"
      by blast
    from v pos [OF i] have "results ! i = v"
      by simp
    with failed created show ?thesis
      by simp
  qed
  have isolated: "\<exists>results'. fst (batchCreateIssues_run R' input s) = Inr (JArr results')
                \<and> results' ! i = results ! i"
    if i: "i < length issues" and same: "\<forall>req. R' (?n + i) req = R (?n + i) req" for i R'
  proof -
    from positions [of R'] obtain results'
      where run': "fst (batchCreateIssues_run R' input s) = Inr (JArr results')"
        and pos': "\<And>i. i < length issues \<Longrightarrow>
                 Inr (results' ! i) = fst (batch_finish R' (issues ! i) (?ps ! i) ?s1)"
      by blast
    have eq: "batch_finish R' (issues ! i) (?ps ! i) ?s1 = batch_finish R (issues ! i) (?ps ! i) ?s1"
      unfolding nth [OF i] using same
      by (cases "batch_request (penv s) ?pk (issues ! i)") (simp_all add: receive_def)
    have "(Inr (results' ! i) :: js_error + jsval) = Inr (results ! i)"
      by (simp only: pos [OF i] pos' [OF i] eq)
    then have "results' ! i = results ! i"
      by simp
    with run' show ?thesis by blast
  qed
  show ?thesis
  proof (rule exI [of _ results], intro conjI allI impI)
    show "fst (batchCreateIssues_run R input s) = Inr (JArr results)"
      by (rule run)
    show "length results = length issues"
      by (rule len)
  next
    fix i req
    assume "i < length issues" and "batch_request (penv s) ?pk (issues ! i) = Inr req"
    then show "sent (snd (batchCreateIssues_run R input s)) ! (?n + i) = req"
      by (simp add: sent snt)
  next
    fix i e
    assume i: "i < length issues" and "fst (create_call R s ?pk issues i) = Inl e"
    with item [OF i]
    show "results ! i = JObj [(''error'', JBool True), (''message'', JStr (message e)),
                                 (''summary'', opt_prop (issues ! i) ''summary'')]"
      by blast
  next
    fix i c k cfg
    assume i: "i < length issues"
      and "fst (create_call R s ?pk issues i) = Inr c
               \<and> get_prop c ''key'' = Inr k
               \<and> getJiraConfig (snd (create_call R s ?pk issues i)) = Inr cfg"
    with item [OF i]
    show "results ! i = JObj [(''key'', k),
                                 (''url'', JStr (JIRA_BASE_URL cfg @ ''/browse/'' @ js_toString k)),
                                 (''success'', JBool True)]"
      by blast
  next
    fix i R'
    assume "i < length issues" and "\<forall>req. R' (?n + i) req = R (?n + i) req"
    then show "\<exists>results'. fst (batchCreateIssues_run R' input s) = Inr (JArr results')
                \<and> results' ! i = results ! i"
      by (rule isolated)
  qed
qed

lemma list_of_three: "length xs = 3 \<Longrightarrow> xs = [xs ! 0, xs ! 1, xs ! 2]"
  by (auto simp add: list_eq_iff_nth_eq less_Suc_eq numeral_3_eq_3 numeral_2_eq_2)

lemma show_nat_400: "show_nat 400 = ''400''"
  by (simp add: show_nat.simps digit_def)

theorem batchCreateIssues_outcomes_witness:
  "fst (batchCreateIssues_run flaky_remote batch_input start) =
     Inr (JArr [JObj [(''key'', JStr ''PROJ-1''),
                      (''url'', JStr ''https://example.atlassian.net/browse/PROJ-1''),
                      (''success'', JBool True)],
                JObj [(''error'', JBool True),
                      (''message'', JStr ''Jira API error: 400 bad request''),
                      (''summary'', JStr ''Task 2'')],
                JObj [(''key'', JStr ''PROJ-3''),
                      (''url'', JStr ''https://example.atlassian.net/browse/PROJ-3''),
                      (''success'', JBool True)]])"
proof -
  let ?pk = "own_prop batch_input ''projectKey''"
  let ?cfg = "\<lparr>JIRA_BASE_URL = ''https://example.atlassian.net'',
                 JIRA_EMAIL = ''dev@example.com'', JIRA_API_TOKEN = ''token''\<rparr>"
  have pk: "truthy ?pk"
    by (simp add: batch_input_def own_prop_def)
  have arr: "own_prop batch_input ''issues'' = JArr batch_issues"
    by (simp add: batch_input_def own_prop_def)
  have ne: "batch_issues \<noteq> []"
    by (simp add: batch_issues_def)
  have nn: "\<forall>x\<in>set batch_issues. \<not> nullish x"
    by (simp add: batch_issues_def)
  have len: "length batch_issues = 3"
    by (simp add: batch_issues_def)
  have req: "\<exists>req. batch_request (penv start) ?pk (batch_issues ! i) = Inr req" if "i < 3" for i
    using that nn len batch_request_config [OF _ start_config] by simp
  have c0: "create_call flaky_remote start ?pk batch_issues 0 =
      (Inr (JObj [(''key'', JStr ''PROJ-1'')]), example_env)"
    using req [of 0]
    by (auto simp add: create_call_def flaky_remote_def jiraRequest_finish_def ok_response_def start_def)
  have c1: "create_call flaky_remote start ?pk batch_issues 1 =
      (Inl (Error ''Jira API error: 400 bad request''), example_env)"
    using req [of 1]
    by (auto simp add: create_call_def flaky_remote_def jiraRequest_finish_def error_response_def
        start_def show_nat_400)
  have c2: "create_call flaky_remote start ?pk batch_issues 2 =
      (Inr (JObj [(''key'', JStr ''PROJ-3'')]), example_env)"
    using req [of 2]
    by (auto simp add: create_call_def flaky_remote_def jiraRequest_finish_def ok_response_def start_def)
  have s1: "opt_prop (batch_issues ! 1) ''summary'' = JStr ''Task 2''"
    by (simp add: batch_issues_def opt_prop_def own_prop_def)
  from batchCreateIssues_outcomes [OF pk arr ne nn, of flaky_remote start]
  obtain results where run: "fst (batchCreateIssues_run flaky_remote batch_input start) = Inr (JArr results)"
    and lr: "length results = 3"
    and failed: "\<And>i e. i < 3 \<Longrightarrow> fst (create_call flaky_remote start ?pk batch_issues i) = Inl e \<Longrightarrow>
             results ! i = JObj [(''error'', JBool True), (''message'', JStr (message e)),
                                 (''summary'', opt_prop (batch_issues ! i) ''summary'')]"
    and created: "\<And>i c k cfg. i < 3 \<Longrightarrow> fst (create_call flaky_remote start ?pk batch_issues i) = Inr c \<Longrightarrow>
               get_prop c ''key'' = Inr k \<Longrightarrow>
               getJiraConfig (snd (create_call flaky_remote start ?pk batch_issues i)) = Inr cfg \<Longrightarrow>
             results ! i = JObj [(''key'', k),
                                 (''url'', JStr (JIRA_BASE_URL cfg @ ''/browse/'' @ js_toString k)),
                                 (''success'', JBool True)]"
    unfolding len by blast
  have k0: "get_prop (JObj [(''key'', JStr ''PROJ-1'')]) ''key'' = Inr (JStr ''PROJ-1'')"
    and k2: "get_prop (JObj [(''key'', JStr ''PROJ-3'')]) ''key'' = Inr (JStr ''PROJ-3'')"
    by (simp_all add: own_prop_def)
  have f0: "fst (create_call flaky_remote start ?pk batch_issues 0) = Inr (JObj [(''key'', JStr ''PROJ-1'')])"
    and g0: "getJiraConfig (snd (create_call flaky_remote start ?pk batch_issues 0)) = Inr ?cfg"
    by (simp_all add: c0 example_config)
  have f1: "fst (create_call flaky_remote start ?pk batch_issues 1) = Inl (Error ''Jira API error: 400 bad request'')"
    using c1 by simp
  have f2: "fst (create_call flaky_remote start ?pk batch_issues 2) = Inr (JObj [(''key'', JStr ''PROJ-3'')])"
    and g2: "getJiraConfig (snd (create_call flaky_remote start ?pk batch_issues 2)) = Inr ?cfg"
    by (simp_all add: c2 example_config)
  from created [OF _ f0 k0 g0]
  have r0: "results ! 0 = JObj [(''key'', JStr ''PROJ-1''),
                      (''url'', JStr ''https://example.atlassian.net/browse/PROJ-1''),
                      (''success'', JBool True)]"
    by simp
  from failed [OF _ f1]
  have r1: "results ! 1 = JObj [(''error'', JBool True),
                      (''message'', JStr ''Jira API error: 400 bad request''),
                      (''summary'', JStr ''Task 2'')]"
    using s1 by simp
  from created [OF _ f2 k2 g2]
  have r2: "results ! 2 = JObj [(''key'', JStr ''PROJ-3''),
                      (''url'', JStr ''https://example.atlassian.net/browse/PROJ-3''),
                      (''success'', JBool True)]"
    by simp
  from list_of_three [OF lr] r0 r1 r2 run show ?thesis
    by simp
qed

text \<open>
  C2 (the code at a non-empty list with a \<^verbatim>\<open>null\<close> item): the list passes the guard of
  \<^verbatim>\<open>batchCreateIssues.run\<close>; reading \<^verbatim>\<open>issue.summary\<close> throws in the \<^verbatim>\<open>try\<close> block of
  the callback, and the \<^verbatim>\<open>catch\<close> block reads \<^verbatim>\<open>issue.summary\<close> again, so the callback's
  promise rejects and with it \<^verbatim>\<open>Promise.all\<close> and the run: the call throws a TypeError
  instead of returning a list. This holds for the list \<^verbatim>\<open>[null]\<close> under every remote side
  and state, and for a valid item followed by \<^verbatim>\<open>null\<close>, where the request of the valid
  item has been sent by then.
\<close>

theorem batch_null_item_rejects:
  "(\<exists>m. fst (batchCreateIssues_run R
            [(''projectKey'', JStr ''PROJ''), (''issues'', JArr [JNull])] s) = Inl (TypeError m))
   \<and> (\<exists>m. fst (batchCreateIssues_run created_remote
            [(''projectKey'', JStr ''PROJ''),
             (''issues'', JArr [JObj [(''summary'', JStr ''Task 1''), (''issueType'', JStr ''Task'')], JNull])]
            start) = Inl (TypeError m))
   \<and> length (sent (snd (batchCreateIssues_run created_remote
            [(''projectKey'', JStr ''PROJ''),
             (''issues'', JArr [JObj [(''summary'', JStr ''Task 1''), (''issueType'', JStr ''Task'')], JNull])]
            start))) = 1"
proof -
  let ?item = "JObj [(''summary'', JStr ''Task 1''), (''issueType'', JStr ''Task'')]"
  have alone: "\<exists>m. fst (batchCreateIssues_run R
            [(''projectKey'', JStr ''PROJ''), (''issues'', JArr [JNull])] s) = Inl (TypeError m)"
    by (simp add: batchCreateIssues_run_def own_prop_def batch_start_def batch_request_def
        batch_item_input_def bind_err_def batch_catch_def promise_all_def)
  have "\<not> nullish ?item" by simp
  from batch_request_config [OF this start_config, of "JStr ''PROJ''"]
  obtain req where req: "batch_request (penv start) (JStr ''PROJ'') ?item = Inr req"
    by blast
  have env: "penv (start\<lparr>sent := sent start @ [req]\<rparr>) = penv start"
    by simp
  have null: "batch_request E (JStr ''PROJ'') JNull =
      Inl (TypeError (''Cannot read properties of null (reading '' @ [CHR 0x27] @ ''summary'' @ [CHR 0x27] @ '')''))" for E
    by (simp add: batch_request_def batch_item_input_def bind_err_def)
  have first: "\<exists>v. fst (batch_finish created_remote ?item (Awaiting 0 req) t) = Inr v" for t
    by (rule item_value) simp
  have run: "batchCreateIssues_run created_remote
            [(''projectKey'', JStr ''PROJ''), (''issues'', JArr [?item, JNull])] start =
      (Inl (TypeError (''Cannot read properties of null (reading '' @ [CHR 0x27] @ ''summary'' @ [CHR 0x27] @ '')'')),
       \<lparr>penv = example_env, sent = [req]\<rparr>)"
    using req first [of "start\<lparr>sent := sent start @ [req]\<rparr>"]
    apply (simp add: batchCreateIssues_run_def own_prop_def batch_start_def send_def null
        batch_catch_def bind_err_def promise_all_def split: prod.splits)
    apply (auto simp add: start_def receive_def created_remote_def split: prod.splits sum.splits)
    done
  from alone run show ?thesis
    by simp
qed

theorem batch_null_item_rejects_witness:
  "\<exists>m. fst (batchCreateIssues_run created_remote
          [(''projectKey'', JStr ''PROJ''), (''issues'', JArr [JNull])] start) = Inl (TypeError m)"
  using batch_null_item_rejects [of created_remote start] by blast

subsection \<open>Commands without validation\<close>

text \<open>
  C1 (the code at an input that lacks the required \<^verbatim>\<open>issueIdOrKey\<close>): with the
  configuration present, \<^verbatim>\<open>getIssueDetails.run({})\<close> sends a request for the issue
  named \<^verbatim>\<open>undefined\<close> and, when the remote answers, returns an object without
  \<^verbatim>\<open>error\<close>; \<^verbatim>\<open>deleteTask.run({})\<close> sends a DELETE for that path and reports success;
  \<^verbatim>\<open>updateTask.run({})\<close> and \<^verbatim>\<open>getTask.run({})\<close> send their request as well.
\<close>

theorem missing_issue_key_reaches_remote:
  "map req_url (sent (snd (getIssueDetails_run created_remote [] start))) =
     [''https://example.atlassian.net/rest/api/3/issue/undefined'']
   \<and> fst (getIssueDetails_run created_remote [] start) =
     Inr (JObj [(''key'', JStr ''PROJ-1''), (''summary'', JUndefined), (''status'', JUndefined),
                (''assignee'', JNull), (''description'', JNull), (''epicLink'', JNull),
                (''subtasks'', JArr [])])
   \<and> map (\<lambda>r. (req_method r, req_url r)) (sent (snd (deleteTask_run created_remote [] start))) =
     [(Some ''DELETE'', ''https://example.atlassian.net/rest/api/3/issue/undefined'')]
   \<and> fst (deleteTask_run created_remote [] start) =
     Inr (JObj [(''success'', JBool True), (''message'', JStr ''Task deleted''), (''input'', JObj [])])
   \<and> map (\<lambda>r. (req_method r, req_url r)) (sent (snd (updateTask_run created_remote [] start))) =
     [(Some ''PUT'', ''https://example.atlassian.net/rest/api/3/issue/undefined'')]
   \<and> map req_url (sent (snd (getTask_run created_remote [] start))) =
     [''https://example.atlassian.net/rest/api/3/issue/undefined'']"
proof -
  have get: "jiraApi_getIssue created_remote JUndefined start =
      (Inr (JObj [(''key'', JStr ''PROJ-1'')]),
       \<lparr>penv = example_env,
        sent = [build_request \<lparr>JIRA_BASE_URL = ''https://example.atlassian.net'',
                 JIRA_EMAIL = ''dev@example.com'', JIRA_API_TOKEN = ''token''\<rparr>
                 ''/rest/api/3/issue/undefined'' no_options]\<rparr>)"
    unfolding jiraApi_getIssue_def jiraRequest_with_config [OF start_config]
    by (simp add: created_remote_finish) (simp add: created_remote_def start_def)
  have details: "issue_details (JObj [(''key'', JStr ''PROJ-1'')]) =
      Inr (JObj [(''key'', JStr ''PROJ-1''), (''summary'', JUndefined), (''status'', JUndefined),
                (''assignee'', JNull), (''description'', JNull), (''epicLink'', JNull),
                (''subtasks'', JArr [])])"
    by (simp add: issue_details_def bind_err_def own_prop_def js_or_def Let_def opt_prop_def
        flatten_description_def subtask_list_def)
  have a: "getIssueDetails_run created_remote [] start =
      (Inr (JObj [(''key'', JStr ''PROJ-1''), (''summary'', JUndefined), (''status'', JUndefined),
                (''assignee'', JNull), (''description'', JNull), (''epicLink'', JNull),
                (''subtasks'', JArr [])]),
       \<lparr>penv = example_env,
        sent = [build_request \<lparr>JIRA_BASE_URL = ''https://example.atlassian.net'',
                 JIRA_EMAIL = ''dev@example.com'', JIRA_API_TOKEN = ''token''\<rparr>
                 ''/rest/api/3/issue/undefined'' no_options]\<rparr>)"
    by (simp add: getIssueDetails_run_def own_prop_def get bind_err_def details caught_def)
  have t: "getTask_run created_remote [] start = getIssueDetails_run created_remote [] start"
    by (simp add: getTask_run_def getIssueDetails_run_def own_prop_def)
  have d: "deleteTask_run created_remote [] start =
      (Inr (JObj [(''success'', JBool True), (''message'', JStr ''Task deleted''), (''input'', JObj [])]),
       \<lparr>penv = example_env,
        sent = [build_request \<lparr>JIRA_BASE_URL = ''https://example.atlassian.net'',
                 JIRA_EMAIL = ''dev@example.com'', JIRA_API_TOKEN = ''token''\<rparr>
                 ''/rest/api/3/issue/undefined''
                 \<lparr>ri_method = Some ''DELETE'', ri_headers = None, ri_body = BodyUndefined\<rparr>]\<rparr>)"
    unfolding deleteTask_run_def jiraApi_deleteIssue_def jiraRequest_with_config [OF start_config]
    by (simp add: created_remote_finish own_prop_def bind_err_def caught_def)
       (simp add: created_remote_def start_def)
  have u: "sent (snd (updateTask_run created_remote [] start)) =
        [build_request \<lparr>JIRA_BASE_URL = ''https://example.atlassian.net'',
                 JIRA_EMAIL = ''dev@example.com'', JIRA_API_TOKEN = ''token''\<rparr>
                 ''/rest/api/3/issue/undefined''
                 \<lparr>ri_method = Some ''PUT'', ri_headers = Some json_headers,
                  ri_body = JSON_stringify (JObj [(''fields'', JUndefined)])\<rparr>]"
    unfolding updateTask_run_def jiraApi_updateIssue_def jiraRequest_with_config [OF start_config]
    by (simp add: own_prop_def start_def)
  show ?thesis
    unfolding t a d u by (simp add: build_request_def)
qed

end
